theory Spec2Isabelle
  imports Complex_Main
begin

section \<open>JavaScript values used by the editor modules\<close>

text \<open>
  A JavaScript string is a sequence of UTF-16 code units; the bullet character that
  \<open>extractContentSections\<close> splits on is the code unit \<open>0x2022\<close>, so strings are lists of
  code units and not lists of 8-bit characters. \<open>js\<close> embeds an ASCII literal of the source.
  The empty string is the only falsy string.
\<close>

type_synonym jstring = "nat list"

definition js :: "string \<Rightarrow> jstring" where
  "js s = map of_char s"

text \<open>\<open>a || b\<close> on strings that may be absent: the first operand when it is truthy.\<close>

definition or_str :: "jstring option \<Rightarrow> jstring \<Rightarrow> jstring" where
  "or_str a b = (case a of None \<Rightarrow> b | Some s \<Rightarrow> if s = [] then b else s)"

text \<open>\<open>String.prototype.includes\<close>: the pattern occurs as a contiguous run.\<close>

fun str_includes :: "jstring \<Rightarrow> jstring \<Rightarrow> bool" where
  "str_includes [] p = (p = [])"
| "str_includes (c # cs) p = (take (length p) (c # cs) = p \<or> str_includes cs p)"

text \<open>
  \<open>String.prototype.trim\<close> removes the WhiteSpace and LineTerminator code units of
  ECMAScript from both ends.
\<close>

definition isWhiteSpace :: "nat \<Rightarrow> bool" where
  "isWhiteSpace c =
     (c = 0x09 \<or> c = 0x0A \<or> c = 0x0B \<or> c = 0x0C \<or> c = 0x0D \<or> c = 0x20 \<or> c = 0xA0
      \<or> c = 0x1680 \<or> (0x2000 \<le> c \<and> c \<le> 0x200A) \<or> c = 0x2028 \<or> c = 0x2029
      \<or> c = 0x202F \<or> c = 0x205F \<or> c = 0x3000 \<or> c = 0xFEFF)"

definition trim :: "jstring \<Rightarrow> jstring" where
  "trim s = rev (dropWhile isWhiteSpace (rev (dropWhile isWhiteSpace s)))"

text \<open>
  \<open>s.split(/[\<bullet>\-\n]/)\<close>: the pieces between the separator code units, empty pieces kept;
  \<open>cur\<close> is the piece being read.
\<close>

definition isHighlightSeparator :: "nat \<Rightarrow> bool" where
  "isHighlightSeparator c = (c = 0x2022 \<or> c = 0x2D \<or> c = 0x0A)"

fun split_chars :: "(nat \<Rightarrow> bool) \<Rightarrow> jstring \<Rightarrow> jstring \<Rightarrow> jstring list" where
  "split_chars sep cur [] = [cur]"
| "split_chars sep cur (c # cs) =
     (if sep c then cur # split_chars sep [] cs else split_chars sep (cur @ [c]) cs)"

text \<open>
  \<open>[...new Set(xs)]\<close>: the values of \<open>xs\<close> in the order of their first occurrence.
\<close>

definition set_add :: "'a list \<Rightarrow> 'a \<Rightarrow> 'a list" where
  "set_add acc x = (if x \<in> set acc then acc else acc @ [x])"

definition new_Set :: "'a list \<Rightarrow> 'a list" where
  "new_Set xs = foldl set_add [] xs"

section \<open>multi\_format\_export.js: content sections of the HTML preview\<close>

record content_block =
  block_type :: "jstring option"
  block_title :: "jstring option"
  block_content :: "jstring option"

record page_content =
  intro :: "jstring option"
  content_highlights :: "jstring list option"
  description :: "jstring option"

record page =
  name :: "jstring option"
  content :: "page_content option"
  contentBlocks :: "content_block list option"

record sections =
  opening_text :: jstring
  highlights :: "jstring list"
  situation :: jstring
  accommodation :: jstring
  outside :: jstring
  services :: jstring
  additional :: "(jstring \<times> jstring) list"

definition empty_sections :: sections where
  "empty_sections =
     \<lparr>opening_text = [], highlights = [], situation = [], accommodation = [], outside = [],
      services = [], additional = []\<rparr>"

text \<open>
  The body of \<open>blocks.forEach\<close>. \<open>toLowerCase\<close> is the built-in of the JavaScript engine
  and is a parameter of the model.
\<close>

definition extract_block :: "(jstring \<Rightarrow> jstring) \<Rightarrow> sections \<Rightarrow> content_block \<Rightarrow> sections" where
  "extract_block toLowerCase s block =
     (if block_type block \<noteq> Some (js ''photo'') \<and> or_str (block_content block) [] \<noteq> [] then
        (let c = or_str (block_content block) [];
             blockTitle = toLowerCase (or_str (block_title block) (or_str (block_type block) []))
         in if str_includes blockTitle (js ''situation'') \<or> str_includes blockTitle (js ''location'')
              then s\<lparr>situation := (if situation s \<noteq> [] then situation s else c)\<rparr>
            else if str_includes blockTitle (js ''accommodation'')
              then s\<lparr>accommodation := (if accommodation s \<noteq> [] then accommodation s else c)\<rparr>
            else if str_includes blockTitle (js ''garden'') \<or> str_includes blockTitle (js ''outside'')
              then s\<lparr>outside := (if outside s \<noteq> [] then outside s else c)\<rparr>
            else if str_includes blockTitle (js ''service'')
              then s\<lparr>services := (if services s \<noteq> [] then services s else c)\<rparr>
            else if str_includes blockTitle (js ''brief'') \<or> str_includes blockTitle (js ''highlight'')
              then (let points = filter (\<lambda>p. trim p \<noteq> []) (split_chars isHighlightSeparator [] c)
                    in s\<lparr>highlights := highlights s @ map trim points\<rparr>)
            else s)
      else s)"

definition append_description :: "jstring \<Rightarrow> jstring \<Rightarrow> jstring" where
  "append_description acc d = (if acc \<noteq> [] then acc @ [0x0A, 0x0A] @ d else d)"

text \<open>The body of \<open>pages.forEach\<close>.\<close>

definition extract_page :: "(jstring \<Rightarrow> jstring) \<Rightarrow> sections \<Rightarrow> page \<Rightarrow> sections" where
  "extract_page toLowerCase s0 p =
     (let pageName = toLowerCase (or_str (name p) []);
          c = (case content p of
                 None \<Rightarrow> \<lparr>intro = None, content_highlights = None, description = None\<rparr>
               | Some c \<Rightarrow> c);
          blocks = (case contentBlocks p of None \<Rightarrow> [] | Some bs \<Rightarrow> bs);
          s1 = (if or_str (intro c) [] \<noteq> [] then s0\<lparr>opening_text := or_str (intro c) []\<rparr> else s0);
          s2 = (case content_highlights c of
                  None \<Rightarrow> s1
                | Some hs \<Rightarrow> s1\<lparr>highlights := highlights s1 @ hs\<rparr>);
          d = or_str (description c) [];
          s3 =
            (if str_includes pageName (js ''location'') \<or> str_includes pageName (js ''situation'')
               then s2\<lparr>situation := (if d \<noteq> [] then d else situation s2)\<rparr>
             else if str_includes pageName (js ''living'') \<or> str_includes pageName (js ''reception'')
                     \<or> str_includes pageName (js ''accommodation'')
               then s2\<lparr>accommodation := append_description (accommodation s2) d\<rparr>
             else if str_includes pageName (js ''kitchen'')
               then s2\<lparr>accommodation := append_description (accommodation s2) d\<rparr>
             else if str_includes pageName (js ''bedroom'')
               then s2\<lparr>accommodation := append_description (accommodation s2) d\<rparr>
             else if str_includes pageName (js ''bathroom'')
               then s2\<lparr>accommodation := append_description (accommodation s2) d\<rparr>
             else if str_includes pageName (js ''garden'') \<or> str_includes pageName (js ''outside'')
                     \<or> str_includes pageName (js ''exterior'')
               then s2\<lparr>outside := (if d \<noteq> [] then d else outside s2)\<rparr>
             else if str_includes pageName (js ''contact'') \<or> str_includes pageName (js ''service'')
               then s2\<lparr>services := (if d \<noteq> [] then d else services s2)\<rparr>
             else if d \<noteq> []
               then s2\<lparr>additional := additional s2 @ [(or_str (name p) (js ''Details''), d)]\<rparr>
             else s2)
      in foldl (extract_block toLowerCase) s3 blocks)"

text \<open>
  \<open>extractContentSections(pages)\<close>; \<open>None\<close> is a missing (null or undefined) argument.
\<close>

definition extractContentSections :: "(jstring \<Rightarrow> jstring) \<Rightarrow> page list option \<Rightarrow> sections" where
  "extractContentSections toLowerCase pages =
     (case pages of
        None \<Rightarrow> empty_sections
      | Some ps \<Rightarrow>
          if length ps = 0 then empty_sections
          else (let s = foldl (extract_page toLowerCase) empty_sections ps
                in s\<lparr>highlights := take 8 (new_Set (highlights s))\<rparr>))"

text \<open>An ASCII-only lower-casing, used where a concrete engine is needed.\<close>

definition ascii_lower :: "jstring \<Rightarrow> jstring" where
  "ascii_lower s = map (\<lambda>c. if 0x41 \<le> c \<and> c \<le> 0x5A then c + 0x20 else c) s"

section \<open>Plain objects and calls to collaborators\<close>

text \<open>
  \<open>obj[key]\<close> on a plain object (an object literal) finds the object's own property
  first and then the properties every plain object inherits from \<open>Object.prototype\<close>;
  the inherited values are functions (or, for \<open>__proto__\<close>, the prototype object) and
  therefore truthy. Any other key gives \<open>undefined\<close>.
\<close>

datatype 'a js_prop = OwnProp 'a | ProtoProp | NoProp

definition object_prototype_names :: "jstring list" where
  "object_prototype_names =
     map js [''constructor'', ''hasOwnProperty'', ''isPrototypeOf'', ''propertyIsEnumerable'',
             ''toLocaleString'', ''toString'', ''valueOf'', ''__proto__'',
             ''__defineGetter__'', ''__defineSetter__'', ''__lookupGetter__'',
             ''__lookupSetter__'']"

definition js_get :: "(jstring \<times> 'a) list \<Rightarrow> jstring \<Rightarrow> 'a js_prop" where
  "js_get obj k =
     (case map_of obj k of
        Some v \<Rightarrow> OwnProp v
      | None \<Rightarrow> if k \<in> set object_prototype_names then ProtoProp else NoProp)"

text \<open>\<open>a || b\<close> on numbers that may be absent: \<open>0\<close> is falsy.\<close>

definition or_num :: "real option \<Rightarrow> real \<Rightarrow> real" where
  "or_num a b = (case a of None \<Rightarrow> b | Some v \<Rightarrow> if v = 0 then b else v)"

definition or_obj :: "'a option \<Rightarrow> 'a \<Rightarrow> 'a" where
  "or_obj a b = (case a of None \<Rightarrow> b | Some v \<Rightarrow> v)"

section \<open>elements\_library.js: design elements\<close>

record position =
  pos_x :: real
  pos_y :: real

record size2d =
  width :: real
  height :: real

record icon_def =
  viewBox :: "jstring option"
  path :: "jstring option"

datatype element_payload =
    ShapeProps (shape_shapeType: jstring) (shape_fill: jstring) (shape_stroke: jstring)
      (shape_strokeWidth: real) (shape_borderRadius: real)
  | IconProps (icon_iconType: jstring) (icon_fill: jstring) (icon_viewBox: "jstring option")
      (icon_svgPath: "jstring option")
  | QRProps (qr_url: jstring) (qr_foreground: jstring) (qr_background: jstring)

text \<open>
  The element object the constructors build; \<open>elem_type\<close> is its \<open>type\<close> field and
  \<open>payload\<close> holds the fields that depend on the type.
\<close>

record element =
  elem_id :: jstring
  elem_type :: jstring
  elem_position :: position
  elem_size :: size2d
  rotation :: real
  zIndex :: real
  locked :: bool
  visible :: bool
  opacity :: real
  payload :: element_payload

record options =
  opt_position :: "position option"
  opt_size :: "size2d option"
  opt_zIndex :: "real option"
  opt_fill :: "jstring option"
  opt_stroke :: "jstring option"
  opt_strokeWidth :: "real option"
  opt_opacity :: "real option"
  opt_borderRadius :: "real option"
  opt_foreground :: "jstring option"
  opt_background :: "jstring option"

definition no_options :: options where
  "no_options =
     \<lparr>opt_position = None, opt_size = None, opt_zIndex = None, opt_fill = None,
      opt_stroke = None, opt_strokeWidth = None, opt_opacity = None, opt_borderRadius = None,
      opt_foreground = None, opt_background = None\<rparr>"

text \<open>
  A colour scheme of color\_schemes.js; \<open>InheritedMember\<close> is what a lookup in the plain
  object \<open>COLOR_SCHEMES\<close> yields for a name of \<open>Object.prototype\<close>.
\<close>

record scheme =
  scheme_name :: jstring
  primary :: jstring
  secondary :: jstring
  accent :: jstring
  scheme_background :: jstring
  scheme_text :: jstring

text \<open>
  Calls that leave the modules under study, in the order they are made: the browser
  console, the application's toast and history functions, the \<open>ElementDrag\<close> module, the
  deferred selection of a new element, and the DOM rewriting helpers of
  color\_schemes.js (which repaint pages and the scheme grid).
\<close>

datatype call =
    WindowShowToast jstring jstring
  | ConsoleLog jstring
  | ConsoleWarn jstring jstring
  | ConsoleError jstring jstring
  | CreateElementId
  | GetNextZIndex jstring
  | SaveToHistory jstring
  | AddElementToPage element jstring
  | SelectElementAfter50ms jstring
  | ApplyColorsToPages "scheme js_prop" bool
  | UpdateCustomColorInputs "scheme js_prop"
  | RenderColorSchemesGrid

text \<open>
  The state the two modules read and write. \<open>ElementDrag\<close> is not part of the files under
  study: the ids its \<open>createElementId\<close> returns are the arbitrary sequence \<open>idSupply\<close>
  (\<open>idsIssued\<close> counts the calls so far) and \<open>nextZIndex\<close> is what its \<open>getNextZIndex\<close>
  returns for a page. \<open>window_showToast\<close>, \<open>global_saveToHistory\<close> and
  \<open>window_EditorState\<close> say whether the application has installed these globals.
  Page ids are strings; \<open>None\<close> is an unset (null or undefined) value.
\<close>

record world =
  currentPage :: "jstring option"
  isDirty :: bool
  property_url :: "jstring option"
  property_id :: "jstring option"
  brochure_pages :: "(jstring \<times> size2d) list"
  ICONS_LIBRARY :: "(jstring \<times> icon_def) list option"
  window_showToast :: bool
  global_saveToHistory :: bool
  window_EditorState :: bool
  currentScheme :: "jstring option"
  idSupply :: "nat \<Rightarrow> jstring"
  idsIssued :: nat
  nextZIndex :: "jstring \<Rightarrow> real"
  calls :: "call list"

definition emit :: "call \<Rightarrow> world \<Rightarrow> world" where
  "emit c w = w\<lparr>calls := calls w @ [c]\<rparr>"

definition createElementId :: "world \<Rightarrow> jstring \<times> world" where
  "createElementId w =
     (idSupply w (idsIssued w), emit CreateElementId (w\<lparr>idsIssued := Suc (idsIssued w)\<rparr>))"

definition getNextZIndex :: "world \<Rightarrow> jstring \<Rightarrow> real \<times> world" where
  "getNextZIndex w pageId = (nextZIndex w pageId, emit (GetNextZIndex pageId) w)"

definition createShapeElement :: "world \<Rightarrow> jstring \<Rightarrow> options \<Rightarrow> element \<times> world" where
  "createShapeElement w shapeType options =
     (let (i, w') = createElementId w
      in (\<lparr>elem_id = i,
           elem_type = js ''shape'',
           elem_position = or_obj (opt_position options) \<lparr>pos_x = 100, pos_y = 100\<rparr>,
           elem_size = or_obj (opt_size options) \<lparr>width = 100, height = 100\<rparr>,
           rotation = 0,
           zIndex = or_num (opt_zIndex options) 10,
           locked = False,
           visible = True,
           opacity = or_num (opt_opacity options) 1,
           payload = ShapeProps shapeType
             (or_str (opt_fill options) (js ''#C20430''))
             (or_str (opt_stroke options) (js ''none''))
             (or_num (opt_strokeWidth options) 0)
             (or_num (opt_borderRadius options) 0)\<rparr>, w'))"

text \<open>
  \<open>createIconElement\<close> returns \<open>null\<close> (\<open>None\<close>) for an icon type the lookup does not find.
  An inherited member has no \<open>viewBox\<close> and no \<open>path\<close>.
\<close>

definition createIconElement :: "world \<Rightarrow> jstring \<Rightarrow> options \<Rightarrow> element option \<times> world" where
  "createIconElement w iconType options =
     (let iconsLib = or_obj (ICONS_LIBRARY w) [];
          iconDef = js_get iconsLib iconType
      in if iconDef = NoProp then
           (None, emit (ConsoleWarn (js ''Unknown icon type:'') iconType) w)
         else
           (let (i, w') = createElementId w
            in (Some \<lparr>elem_id = i,
                 elem_type = js ''icon'',
                 elem_position = or_obj (opt_position options) \<lparr>pos_x = 100, pos_y = 100\<rparr>,
                 elem_size = or_obj (opt_size options) \<lparr>width = 48, height = 48\<rparr>,
                 rotation = 0,
                 zIndex = or_num (opt_zIndex options) 10,
                 locked = False,
                 visible = True,
                 opacity = or_num (opt_opacity options) 1,
                 payload = IconProps iconType
                   (or_str (opt_fill options) (js ''#374151''))
                   (case iconDef of OwnProp d \<Rightarrow> viewBox d | _ \<Rightarrow> None)
                   (case iconDef of OwnProp d \<Rightarrow> path d | _ \<Rightarrow> None)\<rparr>, w')))"

definition createQRCodeElement :: "world \<Rightarrow> jstring option \<Rightarrow> options \<Rightarrow> element \<times> world" where
  "createQRCodeElement w url options =
     (let (i, w') = createElementId w
      in (\<lparr>elem_id = i,
           elem_type = js ''qrcode'',
           elem_position = or_obj (opt_position options) \<lparr>pos_x = 100, pos_y = 100\<rparr>,
           elem_size = or_obj (opt_size options) \<lparr>width = 100, height = 100\<rparr>,
           rotation = 0,
           zIndex = or_num (opt_zIndex options) 10,
           locked = False,
           visible = True,
           opacity = or_num (opt_opacity options) 1,
           payload = QRProps (or_str url [])
             (or_str (opt_foreground options) (js ''#000000''))
             (or_str (opt_background options) (js ''#FFFFFF''))\<rparr>, w'))"

text \<open>
  The module's \<open>showToast\<close>: the application's toast when it is installed, the console
  otherwise.
\<close>

definition showToast :: "world \<Rightarrow> jstring \<Rightarrow> jstring \<Rightarrow> world" where
  "showToast w message type =
     (if window_showToast w then emit (WindowShowToast message type) w
      else emit (ConsoleLog (js ''['' @ type @ js ''] '' @ message)) w)"

definition getPropertyUrl :: "world \<Rightarrow> jstring" where
  "getPropertyUrl w =
     (if or_str (property_url w) [] \<noteq> [] then or_str (property_url w) []
      else if or_str (property_id w) [] \<noteq> []
        then js ''https://doorstep.co.uk/property/'' @ or_str (property_id w) []
      else js ''https://doorstep.co.uk'')"

definition addElementAtPosition ::
  "world \<Rightarrow> jstring \<Rightarrow> jstring \<Rightarrow> jstring \<Rightarrow> jstring \<Rightarrow> real \<Rightarrow> real \<Rightarrow> world" where
  "addElementAtPosition w0 pageId elementType shapeType iconType x y =
     (let (z, w1) = getNextZIndex w0 pageId;
          opts = no_options\<lparr>opt_position := Some \<lparr>pos_x = x, pos_y = y\<rparr>, opt_zIndex := Some z\<rparr>;
          (elementData, w2) =
            (if elementType = js ''shape'' then
               (let (e, w) = createShapeElement w1 shapeType opts in (Some e, w))
             else if elementType = js ''icon'' then createIconElement w1 iconType opts
             else if elementType = js ''qrcode'' then
               (let (e, w) = createQRCodeElement w1 (Some (getPropertyUrl w1)) opts in (Some e, w))
             else (None, w1))
      in case elementData of
           None \<Rightarrow> w2
         | Some e \<Rightarrow>
             (let w3 = (if global_saveToHistory w2 then emit (SaveToHistory (js ''add element'')) w2
                        else w2);
                  w4 = emit (AddElementToPage e pageId) w3;
                  w5 = emit (SelectElementAfter50ms (elem_id e)) w4
              in showToast w5 (js ''Added '' @ elementType) (js ''success'')))"

text \<open>
  \<open>document.querySelector\<close> for the page with the given \<open>data-page-id\<close>: the first
  such page of the document, if any.
\<close>

definition addElementToCurrentPage :: "world \<Rightarrow> jstring \<Rightarrow> jstring \<Rightarrow> jstring \<Rightarrow> world" where
  "addElementToCurrentPage w elementType shapeType iconType =
     (let pageId = or_str (currentPage w) []
      in if pageId = [] then showToast w (js ''Please select a page first'') (js ''warning'')
         else (case map_of (brochure_pages w) pageId of
                 None \<Rightarrow> w
               | Some page \<Rightarrow>
                   (let centerX = width page / 2 - 50;
                        centerY = height page / 2 - 50
                    in addElementAtPosition w pageId elementType shapeType iconType centerX centerY)))"

definition addQRCodeToCurrentPage :: "world \<Rightarrow> world" where
  "addQRCodeToCurrentPage w = addElementToCurrentPage w (js ''qrcode'') [] []"

section \<open>color\_schemes.js: applying a preset scheme\<close>

definition mk_scheme :: "string \<Rightarrow> string \<Rightarrow> string \<Rightarrow> string \<Rightarrow> string \<Rightarrow> string \<Rightarrow> scheme" where
  "mk_scheme n p s a b t =
     \<lparr>scheme_name = js n, primary = js p, secondary = js s, accent = js a,
      scheme_background = js b, scheme_text = js t\<rparr>"

text \<open>The object literal \<open>COLOR_SCHEMES\<close>, key by key.\<close>

definition COLOR_SCHEMES :: "(jstring \<times> scheme) list" where
  "COLOR_SCHEMES =
     [
      (js ''classicNavy'', mk_scheme ''Classic Navy'' ''#1a365d'' ''#2c5282'' ''#ed8936'' ''#ffffff'' ''#2d3748''),
      (js ''corporateBlue'', mk_scheme ''Corporate Blue'' ''#0066cc'' ''#004499'' ''#ff6600'' ''#f8fafc'' ''#1e293b''),
      (js ''executiveGray'', mk_scheme ''Executive Gray'' ''#374151'' ''#6b7280'' ''#f59e0b'' ''#ffffff'' ''#111827''),
      (js ''professionalGreen'', mk_scheme ''Professional Green'' ''#065f46'' ''#047857'' ''#fbbf24'' ''#f0fdf4'' ''#14532d''),
      (js ''blackGold'', mk_scheme ''Black & Gold'' ''#1a1a1a'' ''#333333'' ''#d4af37'' ''#0d0d0d'' ''#ffffff''),
      (js ''platinumLux'', mk_scheme ''Platinum Luxury'' ''#2d3748'' ''#4a5568'' ''#c9a961'' ''#f7fafc'' ''#1a202c''),
      (js ''roseGoldElite'', mk_scheme ''Rose Gold Elite'' ''#4a3728'' ''#6b4423'' ''#e8b4b8'' ''#fdf2f8'' ''#3d2914''),
      (js ''sapphireRoyal'', mk_scheme ''Sapphire Royal'' ''#1e3a5f'' ''#2c5282'' ''#c9a961'' ''#f0f9ff'' ''#0c4a6e''),
      (js ''emeraldPrestige'', mk_scheme ''Emerald Prestige'' ''#064e3b'' ''#047857'' ''#fcd34d'' ''#ecfdf5'' ''#022c22''),
      (js ''modernMono'', mk_scheme ''Modern Mono'' ''#000000'' ''#404040'' ''#666666'' ''#ffffff'' ''#000000''),
      (js ''cleanSlate'', mk_scheme ''Clean Slate'' ''#334155'' ''#64748b'' ''#0ea5e9'' ''#f8fafc'' ''#0f172a''),
      (js ''urbanChic'', mk_scheme ''Urban Chic'' ''#18181b'' ''#3f3f46'' ''#a855f7'' ''#fafafa'' ''#09090b''),
      (js ''techModern'', mk_scheme ''Tech Modern'' ''#0f172a'' ''#1e293b'' ''#22d3ee'' ''#f1f5f9'' ''#020617''),
      (js ''sunsetCoral'', mk_scheme ''Sunset Coral'' ''#dc2626'' ''#f97316'' ''#fbbf24'' ''#fff7ed'' ''#7c2d12''),
      (js ''oceanBreeze'', mk_scheme ''Ocean Breeze'' ''#0891b2'' ''#06b6d4'' ''#f97316'' ''#ecfeff'' ''#164e63''),
      (js ''forestFresh'', mk_scheme ''Forest Fresh'' ''#15803d'' ''#22c55e'' ''#facc15'' ''#f0fdf4'' ''#14532d''),
      (js ''berryBliss'', mk_scheme ''Berry Bliss'' ''#7c3aed'' ''#a855f7'' ''#f472b6'' ''#faf5ff'' ''#4c1d95''),
      (js ''warmSand'', mk_scheme ''Warm Sand'' ''#92400e'' ''#b45309'' ''#059669'' ''#fefce8'' ''#78350f''),
      (js ''stoneNatural'', mk_scheme ''Stone Natural'' ''#57534e'' ''#78716c'' ''#84cc16'' ''#fafaf9'' ''#292524''),
      (js ''woodlandBrown'', mk_scheme ''Woodland Brown'' ''#5c4033'' ''#8b6914'' ''#4ade80'' ''#fdf6e3'' ''#3d2914''),
      (js ''terracotta'', mk_scheme ''Terracotta'' ''#c2410c'' ''#ea580c'' ''#16a34a'' ''#fff7ed'' ''#7c2d12''),
      (js ''britishCottage'', mk_scheme ''British Cottage'' ''#5d6e5c'' ''#a8b5a0'' ''#d4a574'' ''#faf8f5'' ''#3d3d3d''),
      (js ''cosyHearth'', mk_scheme ''Cosy Hearth'' ''#8b4d3b'' ''#c9a88e'' ''#deb887'' ''#fff9f5'' ''#4a3728''),
      (js ''sageAndStone'', mk_scheme ''Sage & Stone'' ''#7d8471'' ''#b5baa8'' ''#c49a6c'' ''#f5f5f0'' ''#404040''),
      (js ''dustyRose'', mk_scheme ''Dusty Rose'' ''#b8848c'' ''#d4a5a5'' ''#8b7355'' ''#fdf6f6'' ''#5c4a4a''),
      (js ''warmTaupe'', mk_scheme ''Warm Taupe'' ''#8b7d72'' ''#a89f94'' ''#c17f59'' ''#faf7f4'' ''#4a4540''),
      (js ''heritageGreen'', mk_scheme ''Heritage Green'' ''#2d4a3e'' ''#5c7a6b'' ''#d4af37'' ''#f4f7f5'' ''#1a2e24''),
      (js ''countryManor'', mk_scheme ''Country Manor'' ''#4a5568'' ''#9ca3af'' ''#92400e'' ''#f8f6f3'' ''#2d3748''),
      (js ''coastalCalm'', mk_scheme ''Coastal Calm'' ''#4a6670'' ''#8fa3ad'' ''#d4a574'' ''#f5f8f9'' ''#2c3e43''),
      (js ''savillsStyle'', mk_scheme ''Savills'' ''#1a3c6e'' ''#c9a961'' ''#8b7355'' ''#f8f6f3'' ''#333333''),
      (js ''knightFrankStyle'', mk_scheme ''Knight Frank'' ''#003366'' ''#d4af37'' ''#4a4a4a'' ''#ffffff'' ''#1a1a1a''),
      (js ''foxtonsStyle'', mk_scheme ''Foxtons'' ''#00594c'' ''#8dc63f'' ''#ffffff'' ''#f5f5f5'' ''#333333''),
      (js ''purpleBricksStyle'', mk_scheme ''Purple Bricks'' ''#6b2d5b'' ''#f7941d'' ''#ffffff'' ''#ffffff'' ''#333333''),
      (js ''rightmoveStyle'', mk_scheme ''Rightmove'' ''#00deb6'' ''#2c2c2c'' ''#ff5a00'' ''#ffffff'' ''#2c2c2c''),
      (js ''zooplaStyle'', mk_scheme ''Zoopla'' ''#6d2077'' ''#e95420'' ''#8a3e91'' ''#ffffff'' ''#333333''),
      (js ''hamptonsStyle'', mk_scheme ''Hamptons'' ''#003057'' ''#c5a572'' ''#666666'' ''#f9f9f9'' ''#1a1a1a''),
      (js ''dextersStyle'', mk_scheme ''Dexters'' ''#000000'' ''#e31837'' ''#ffffff'' ''#f5f5f5'' ''#1a1a1a'')
     ]"

text \<open>
  The \<open>name\<close> property of what a lookup returned: a scheme's own name; for an inherited
  function its function name (the constructor is \<open>Object\<close>); \<open>undefined\<close> for the prototype
  object itself.
\<close>

definition looked_up_name :: "jstring \<Rightarrow> scheme js_prop \<Rightarrow> jstring" where
  "looked_up_name k v =
     (case v of
        OwnProp sch \<Rightarrow> scheme_name sch
      | ProtoProp \<Rightarrow>
          if k = js ''constructor'' then js ''Object''
          else if k = js ''__proto__'' then js ''undefined''
          else k
      | NoProp \<Rightarrow> js ''undefined'')"

text \<open>
  \<open>applyColorScheme(schemeId, currentPageOnly)\<close>. \<open>showToast\<close> and \<open>saveToHistory\<close> are the
  application's globals here, called only when they are functions; the dirty flag is
  set on \<open>window.EditorState\<close> when that exists.
\<close>

definition applyColorScheme :: "world \<Rightarrow> jstring \<Rightarrow> bool \<Rightarrow> world" where
  "applyColorScheme w0 schemeId currentPageOnly =
     (let sch = js_get COLOR_SCHEMES schemeId
      in if sch = NoProp then emit (ConsoleError (js ''Unknown color scheme:'') schemeId) w0
         else
           (let w1 = w0\<lparr>currentScheme := Some schemeId\<rparr>;
                w2 = emit (ApplyColorsToPages sch currentPageOnly) w1;
                w3 = emit (UpdateCustomColorInputs sch) w2;
                w4 = emit RenderColorSchemesGrid w3;
                w5 = (if window_showToast w4
                      then emit (WindowShowToast
                             (js ''Applied \"'' @ looked_up_name schemeId sch @ js ''\" color scheme'')
                             (js ''success'')) w4
                      else w4);
                w6 = (if window_EditorState w5 then w5\<lparr>isDirty := True\<rparr> else w5)
            in if global_saveToHistory w6 then emit (SaveToHistory (js ''apply color scheme'')) w6
               else w6))"

text \<open>
  A session used for concrete runs: page \<open>p1\<close> is selected and rendered, one icon is in
  the library, and the application's toast, history and editor state are installed.
\<close>

definition demo_world :: world where
  "demo_world =
     \<lparr>currentPage = Some (js ''p1''),
      isDirty = False,
      property_url = None,
      property_id = Some (js ''42''),
      brochure_pages = [(js ''p1'', \<lparr>width = 1122, height = 794\<rparr>)],
      ICONS_LIBRARY = Some [(js ''home'', \<lparr>viewBox = Some (js ''0 0 24 24''), path = Some (js ''M3 12l9-9 9 9'')\<rparr>)],
      window_showToast = True,
      global_saveToHistory = True,
      window_EditorState = True,
      currentScheme = None,
      idSupply = (\<lambda>n. js ''element_'' @ [48 + n]),
      idsIssued = 0,
      nextZIndex = (\<lambda>p. 11),
      calls = []\<rparr>"

section \<open>smart\_guides.js: snapping a dragged element\<close>

text \<open>
  JavaScript numbers are taken as real numbers: pixel coordinates are finite, and the
  snapping arithmetic (differences, halves, absolute values) is read exactly.
  \<open>Math.round\<close> rounds to the nearest integer, a half upwards.
\<close>

definition Math_round :: "real \<Rightarrow> real" where
  "Math_round v = of_int \<lfloor>v + 1 / 2\<rfloor>"

record config =
  snapThreshold :: real
  snapToGrid :: bool
  gridSize :: real
  snapToElements :: bool
  snapToCenter :: bool
  snapToEdges :: bool

definition default_CONFIG :: config where
  "default_CONFIG =
     \<lparr>snapThreshold = 8, snapToGrid = False, gridSize = 10, snapToElements = True,
      snapToCenter = True, snapToEdges = True\<rparr>"

text \<open>
  The part of the DOM that \<open>calculateSnap\<close> reads. A node is known by its reference;
  \<open>bounding\<close> is its \<open>getBoundingClientRect()\<close>, \<open>matches_selector\<close> says whether it matches
  \<open>.design-element, .brochure-element, .template-element\<close>, \<open>offsetParent_null\<close> whether its
  \<open>offsetParent\<close> is \<open>null\<close>, and \<open>descendants\<close> lists the nodes below it in document order.
\<close>

record dom_rect =
  rect_left :: real
  rect_top :: real
  rect_width :: real
  rect_height :: real

record node =
  bounding :: dom_rect
  matches_selector :: bool
  offsetParent_null :: bool
  descendants :: "nat list"

text \<open>The module variables of \<open>SmartGuides\<close> and the document they look at.\<close>

record sg_state =
  CONFIG :: config
  activeElement :: "nat option"
  canvas :: "nat option"
  isEnabled :: bool
  document :: "nat \<Rightarrow> node"

datatype target_type = CanvasTarget | ElementTarget nat

record snap_points =
  p_left :: real
  p_top :: real
  p_right :: real
  p_bottom :: real
  p_centerX :: real
  p_centerY :: real
  p_width :: real
  p_height :: real

record target = snap_points +
  target_type :: target_type

datatype guide_type = Vertical | Horizontal

text \<open>
  A guide descriptor: \<open>line\<close> is its \<open>x\<close> (vertical guide) or \<open>y\<close> (horizontal guide),
  \<open>from_px\<close> and \<open>to_px\<close> its extent along the other axis.
\<close>

record guide =
  guide_type :: guide_type
  line :: real
  from_px :: real
  to_px :: real
  isCenter :: bool

record snap_result =
  result_x :: real
  result_y :: real
  result_guides :: "guide list"
  result_snappedX :: "bool option"
  result_snappedY :: "bool option"

definition getSnappableElements :: "sg_state \<Rightarrow> nat list" where
  "getSnappableElements s =
     (case canvas s of
        None \<Rightarrow> []
      | Some c \<Rightarrow>
          filter (\<lambda>el. Some el \<noteq> activeElement s \<and> \<not> offsetParent_null (document s el))
            (filter (\<lambda>el. matches_selector (document s el)) (descendants (document s c))))"

definition getElementSnapPoints :: "sg_state \<Rightarrow> nat \<Rightarrow> nat \<Rightarrow> snap_points" where
  "getElementSnapPoints s c el =
     (let rect = bounding (document s el);
          canvasRect = bounding (document s c);
          left = rect_left rect - rect_left canvasRect;
          top = rect_top rect - rect_top canvasRect
      in \<lparr>p_left = left, p_top = top,
          p_right = left + rect_width rect, p_bottom = top + rect_height rect,
          p_centerX = left + rect_width rect / 2, p_centerY = top + rect_height rect / 2,
          p_width = rect_width rect, p_height = rect_height rect\<rparr>)"

definition getCanvasSnapPoints :: "sg_state \<Rightarrow> snap_points option" where
  "getCanvasSnapPoints s =
     (case canvas s of
        None \<Rightarrow> None
      | Some c \<Rightarrow>
          (let rect = bounding (document s c)
           in Some \<lparr>p_left = 0, p_top = 0, p_right = rect_width rect, p_bottom = rect_height rect,
                p_centerX = rect_width rect / 2, p_centerY = rect_height rect / 2,
                p_width = rect_width rect, p_height = rect_height rect\<rparr>))"

text \<open>
  The list \<open>snapTargets\<close> that \<open>calculateSnap\<close> builds: the canvas first, then, when
  \<open>CONFIG.snapToElements\<close> is set, the snappable elements.
\<close>

definition snapTargets :: "sg_state \<Rightarrow> target list" where
  "snapTargets s =
     (case canvas s of
        None \<Rightarrow> []
      | Some c \<Rightarrow>
          (case getCanvasSnapPoints s of
             None \<Rightarrow> []
           | Some canvasPoints \<Rightarrow> [snap_points.extend canvasPoints (target.fields CanvasTarget)])
          @ (if snapToElements (CONFIG s)
             then map (\<lambda>el. snap_points.extend (getElementSnapPoints s c el)
                               (target.fields (ElementTarget el)))
                    (getSnappableElements s)
             else []))"

text \<open>The dragged box at the candidate position, and the locals the two loops update.\<close>

record moving =
  newX :: real
  newY :: real
  elementWidth :: real
  elementHeight :: real
  elementLeft :: real
  elementTop :: real
  elementRight :: real
  elementBottom :: real
  elementCenterX :: real
  elementCenterY :: real

record snap_vars =
  snappedX :: real
  snappedY :: real
  activeGuides :: "guide list"
  xSnapped :: bool
  ySnapped :: bool

text \<open>The body of the X loop for one target (after the \<open>break\<close> test).\<close>

definition x_body :: "config \<Rightarrow> moving \<Rightarrow> snap_points \<Rightarrow> target \<Rightarrow> snap_vars \<Rightarrow> snap_vars" where
  "x_body cfg m canvasPoints t v =
     (if \<bar>elementLeft m - p_left t\<bar> \<le> snapThreshold cfg then
        v\<lparr>snappedX := p_left t,
          activeGuides := activeGuides v @
            [\<lparr>guide_type = Vertical, line = p_left t, from_px = min (elementTop m) (p_top t),
              to_px = max (elementBottom m) (p_bottom t), isCenter = False\<rparr>],
          xSnapped := True\<rparr>
      else if \<bar>elementRight m - p_right t\<bar> \<le> snapThreshold cfg then
        v\<lparr>snappedX := p_right t - elementWidth m,
          activeGuides := activeGuides v @
            [\<lparr>guide_type = Vertical, line = p_right t, from_px = min (elementTop m) (p_top t),
              to_px = max (elementBottom m) (p_bottom t), isCenter = False\<rparr>],
          xSnapped := True\<rparr>
      else if \<bar>elementLeft m - p_right t\<bar> \<le> snapThreshold cfg then
        v\<lparr>snappedX := p_right t,
          activeGuides := activeGuides v @
            [\<lparr>guide_type = Vertical, line = p_right t, from_px = min (elementTop m) (p_top t),
              to_px = max (elementBottom m) (p_bottom t), isCenter = False\<rparr>],
          xSnapped := True\<rparr>
      else if \<bar>elementRight m - p_left t\<bar> \<le> snapThreshold cfg then
        v\<lparr>snappedX := p_left t - elementWidth m,
          activeGuides := activeGuides v @
            [\<lparr>guide_type = Vertical, line = p_left t, from_px = min (elementTop m) (p_top t),
              to_px = max (elementBottom m) (p_bottom t), isCenter = False\<rparr>],
          xSnapped := True\<rparr>
      else if snapToCenter cfg \<and> \<bar>elementCenterX m - p_centerX t\<bar> \<le> snapThreshold cfg then
        v\<lparr>snappedX := p_centerX t - elementWidth m / 2,
          activeGuides := activeGuides v @
            [\<lparr>guide_type = Vertical, line = p_centerX t, from_px = 0,
              to_px = p_height canvasPoints, isCenter = True\<rparr>],
          xSnapped := True\<rparr>
      else v)"

fun x_loop :: "config \<Rightarrow> moving \<Rightarrow> snap_points \<Rightarrow> target list \<Rightarrow> snap_vars \<Rightarrow> snap_vars" where
  "x_loop cfg m canvasPoints [] v = v"
| "x_loop cfg m canvasPoints (t # ts) v =
     (if xSnapped v then v else x_loop cfg m canvasPoints ts (x_body cfg m canvasPoints t v))"

text \<open>The body of the Y loop for one target.\<close>

definition y_body :: "config \<Rightarrow> moving \<Rightarrow> snap_points \<Rightarrow> target \<Rightarrow> snap_vars \<Rightarrow> snap_vars" where
  "y_body cfg m canvasPoints t v =
     (let adjustedElementTop = (if snappedX v \<noteq> newX m then elementTop m else newY m);
          adjustedElementBottom = adjustedElementTop + elementHeight m;
          adjustedElementCenterY = adjustedElementTop + elementHeight m / 2
      in if \<bar>adjustedElementTop - p_top t\<bar> \<le> snapThreshold cfg then
           v\<lparr>snappedY := p_top t,
             activeGuides := activeGuides v @
               [\<lparr>guide_type = Horizontal, line = p_top t, from_px = min (snappedX v) (p_left t),
                 to_px = max (snappedX v + elementWidth m) (p_right t), isCenter = False\<rparr>],
             ySnapped := True\<rparr>
         else if \<bar>adjustedElementBottom - p_bottom t\<bar> \<le> snapThreshold cfg then
           v\<lparr>snappedY := p_bottom t - elementHeight m,
             activeGuides := activeGuides v @
               [\<lparr>guide_type = Horizontal, line = p_bottom t, from_px = min (snappedX v) (p_left t),
                 to_px = max (snappedX v + elementWidth m) (p_right t), isCenter = False\<rparr>],
             ySnapped := True\<rparr>
         else if \<bar>adjustedElementTop - p_bottom t\<bar> \<le> snapThreshold cfg then
           v\<lparr>snappedY := p_bottom t,
             activeGuides := activeGuides v @
               [\<lparr>guide_type = Horizontal, line = p_bottom t, from_px = min (snappedX v) (p_left t),
                 to_px = max (snappedX v + elementWidth m) (p_right t), isCenter = False\<rparr>],
             ySnapped := True\<rparr>
         else if \<bar>adjustedElementBottom - p_top t\<bar> \<le> snapThreshold cfg then
           v\<lparr>snappedY := p_top t - elementHeight m,
             activeGuides := activeGuides v @
               [\<lparr>guide_type = Horizontal, line = p_top t, from_px = min (snappedX v) (p_left t),
                 to_px = max (snappedX v + elementWidth m) (p_right t), isCenter = False\<rparr>],
             ySnapped := True\<rparr>
         else if snapToCenter cfg \<and> \<bar>adjustedElementCenterY - p_centerY t\<bar> \<le> snapThreshold cfg then
           v\<lparr>snappedY := p_centerY t - elementHeight m / 2,
             activeGuides := activeGuides v @
               [\<lparr>guide_type = Horizontal, line = p_centerY t, from_px = 0,
                 to_px = p_width canvasPoints, isCenter = True\<rparr>],
             ySnapped := True\<rparr>
         else v)"

fun y_loop :: "config \<Rightarrow> moving \<Rightarrow> snap_points \<Rightarrow> target list \<Rightarrow> snap_vars \<Rightarrow> snap_vars" where
  "y_loop cfg m canvasPoints [] v = v"
| "y_loop cfg m canvasPoints (t # ts) v =
     (if ySnapped v then v else y_loop cfg m canvasPoints ts (y_body cfg m canvasPoints t v))"

text \<open>The grid snapping at the end of \<open>calculateSnap\<close>.\<close>

definition grid_snap :: "config \<Rightarrow> moving \<Rightarrow> snap_vars \<Rightarrow> snap_vars" where
  "grid_snap cfg m v0 =
     (let v1 = (if snapToGrid cfg \<and> \<not> xSnapped v0
                then v0\<lparr>snappedX := Math_round (newX m / gridSize cfg) * gridSize cfg\<rparr> else v0)
      in if snapToGrid cfg \<and> \<not> ySnapped v1
         then v1\<lparr>snappedY := Math_round (newY m / gridSize cfg) * gridSize cfg\<rparr> else v1)"

definition moving_box :: "real \<Rightarrow> real \<Rightarrow> real \<Rightarrow> real \<Rightarrow> moving" where
  "moving_box x y w h =
     \<lparr>newX = x, newY = y, elementWidth = w, elementHeight = h,
      elementLeft = x, elementTop = y, elementRight = x + w, elementBottom = y + h,
      elementCenterX = x + w / 2, elementCenterY = y + h / 2\<rparr>"

text \<open>
  \<open>calculateSnap(element, newX, newY)\<close>: the returned object and the module state after
  the call. The early return carries no \<open>snappedX\<close> and \<open>snappedY\<close> properties.
\<close>

definition calculateSnap :: "sg_state \<Rightarrow> nat \<Rightarrow> real \<Rightarrow> real \<Rightarrow> snap_result \<times> sg_state" where
  "calculateSnap s0 element x y =
     (if \<not> isEnabled s0 \<or> canvas s0 = None then
        (\<lparr>result_x = x, result_y = y, result_guides = [], result_snappedX = None,
          result_snappedY = None\<rparr>, s0)
      else
        (let s = s0\<lparr>activeElement := Some element\<rparr>;
             elementRect = bounding (document s element);
             m = moving_box x y (rect_width elementRect) (rect_height elementRect);
             v0 = \<lparr>snappedX = x, snappedY = y, activeGuides = [], xSnapped = False,
                   ySnapped = False\<rparr>;
             canvasPoints = the (getCanvasSnapPoints s);
             targets = snapTargets s;
             v1 = x_loop (CONFIG s) m canvasPoints targets v0;
             v2 = y_loop (CONFIG s) m canvasPoints targets v1;
             v3 = grid_snap (CONFIG s) m v2
         in (\<lparr>result_x = snappedX v3, result_y = snappedY v3, result_guides = activeGuides v3,
              result_snappedX = Some (xSnapped v3), result_snappedY = Some (ySnapped v3)\<rparr>, s)))"

text \<open>
  A canvas of 800 by 600 pixels at viewport position (10, 20) holding the dragged
  element 1 (100 by 50), a visible sibling 2 whose box relative to the canvas is
  left 200, top 100, right 400, bottom 200, and a hidden sibling 3.
\<close>

definition demo_document :: "nat \<Rightarrow> node" where
  "demo_document r =
     (if r = 0 then
        \<lparr>bounding = \<lparr>rect_left = 10, rect_top = 20, rect_width = 800, rect_height = 600\<rparr>,
         matches_selector = False, offsetParent_null = False, descendants = [1, 2, 3]\<rparr>
      else if r = 1 then
        \<lparr>bounding = \<lparr>rect_left = 60, rect_top = 70, rect_width = 100, rect_height = 50\<rparr>,
         matches_selector = True, offsetParent_null = False, descendants = []\<rparr>
      else if r = 2 then
        \<lparr>bounding = \<lparr>rect_left = 210, rect_top = 120, rect_width = 200, rect_height = 100\<rparr>,
         matches_selector = True, offsetParent_null = False, descendants = []\<rparr>
      else
        \<lparr>bounding = \<lparr>rect_left = 500, rect_top = 400, rect_width = 40, rect_height = 40\<rparr>,
         matches_selector = True, offsetParent_null = True, descendants = []\<rparr>)"

definition demo_state :: sg_state where
  "demo_state =
     \<lparr>CONFIG = default_CONFIG, activeElement = None, canvas = Some 0, isEnabled = True,
      document = demo_document\<rparr>"

text \<open>
  A canvas of 800 by 600 pixels at the viewport origin holding the dragged element 1
  (100 by 50) and a visible sibling 2 whose box is left 352, top 100, right 552,
  bottom 200.
\<close>

definition overlap_document :: "nat \<Rightarrow> node" where
  "overlap_document r =
     (if r = 0 then
        \<lparr>bounding = \<lparr>rect_left = 0, rect_top = 0, rect_width = 800, rect_height = 600\<rparr>,
         matches_selector = False, offsetParent_null = False, descendants = [1, 2]\<rparr>
      else if r = 1 then
        \<lparr>bounding = \<lparr>rect_left = 20, rect_top = 20, rect_width = 100, rect_height = 50\<rparr>,
         matches_selector = True, offsetParent_null = False, descendants = []\<rparr>
      else
        \<lparr>bounding = \<lparr>rect_left = 352, rect_top = 100, rect_width = 200, rect_height = 100\<rparr>,
         matches_selector = True, offsetParent_null = False, descendants = []\<rparr>)"

definition overlap_state :: sg_state where
  "overlap_state =
     \<lparr>CONFIG = default_CONFIG, activeElement = None, canvas = Some 0, isEnabled = True,
      document = overlap_document\<rparr>"

section \<open>The snapping rule in the words of the specification\<close>

text \<open>
  Along one axis a box has a start edge, an end edge and a center (left, right and
  centerX on the X axis; top, bottom and centerY on the Y axis). The alignments of the
  dragged box with a target, in the precedence of the specification: same edge to same
  edge (start to start, end to end), opposite edges (start to end, end to start), then
  center to center.
\<close>

datatype alignment = StartToStart | EndToEnd | StartToEnd | EndToStart | CenterToCenter

definition precedence :: "alignment list" where
  "precedence = [StartToStart, EndToEnd, StartToEnd, EndToStart, CenterToCenter]"

text \<open>
  For a dragged box starting at \<open>lo\<close> with extent \<open>sz\<close> and a target with edges \<open>tlo\<close>,
  \<open>thi\<close> and center \<open>tc\<close>: the distance an alignment has to close, the start coordinate
  of the box once aligned, and the coordinate of the guide line.
\<close>

definition align_distance :: "alignment \<Rightarrow> real \<Rightarrow> real \<Rightarrow> real \<times> real \<times> real \<Rightarrow> real" where
  "align_distance a lo sz t =
     (case t of (tlo, thi, tc) \<Rightarrow>
        (case a of
           StartToStart \<Rightarrow> \<bar>lo - tlo\<bar>
         | EndToEnd \<Rightarrow> \<bar>lo + sz - thi\<bar>
         | StartToEnd \<Rightarrow> \<bar>lo - thi\<bar>
         | EndToStart \<Rightarrow> \<bar>lo + sz - tlo\<bar>
         | CenterToCenter \<Rightarrow> \<bar>lo + sz / 2 - tc\<bar>))"

definition aligned_start :: "alignment \<Rightarrow> real \<Rightarrow> real \<times> real \<times> real \<Rightarrow> real" where
  "aligned_start a sz t =
     (case t of (tlo, thi, tc) \<Rightarrow>
        (case a of
           StartToStart \<Rightarrow> tlo
         | EndToEnd \<Rightarrow> thi - sz
         | StartToEnd \<Rightarrow> thi
         | EndToStart \<Rightarrow> tlo - sz
         | CenterToCenter \<Rightarrow> tc - sz / 2))"

definition guide_line :: "alignment \<Rightarrow> real \<times> real \<times> real \<Rightarrow> real" where
  "guide_line a t =
     (case t of (tlo, thi, tc) \<Rightarrow>
        (case a of
           StartToStart \<Rightarrow> tlo
         | EndToEnd \<Rightarrow> thi
         | StartToEnd \<Rightarrow> thi
         | EndToStart \<Rightarrow> tlo
         | CenterToCenter \<Rightarrow> tc))"

text \<open>
  An alignment matches when its distance is within the threshold; center to center is
  tried only when \<open>CONFIG.snapToCenter\<close> is set. The first matching alignment of a
  target, in the order of precedence, and the first target (in the order of the target
  list) that has one.
\<close>

definition alignment_matches :: "config \<Rightarrow> real \<Rightarrow> real \<Rightarrow> real \<times> real \<times> real \<Rightarrow> alignment \<Rightarrow> bool" where
  "alignment_matches cfg lo sz t a =
     ((a = CenterToCenter \<longrightarrow> snapToCenter cfg) \<and> align_distance a lo sz t \<le> snapThreshold cfg)"

definition first_alignment :: "config \<Rightarrow> real \<Rightarrow> real \<Rightarrow> real \<times> real \<times> real \<Rightarrow> alignment option" where
  "first_alignment cfg lo sz t = find (alignment_matches cfg lo sz t) precedence"

fun first_snap :: "('t \<Rightarrow> alignment option) \<Rightarrow> 't list \<Rightarrow> ('t \<times> alignment) option" where
  "first_snap f [] = None"
| "first_snap f (t # ts) = (case f t of Some a \<Rightarrow> Some (t, a) | None \<Rightarrow> first_snap f ts)"

definition x_edges :: "target \<Rightarrow> real \<times> real \<times> real" where
  "x_edges t = (p_left t, p_right t, p_centerX t)"

definition y_edges :: "target \<Rightarrow> real \<times> real \<times> real" where
  "y_edges t = (p_top t, p_bottom t, p_centerY t)"

text \<open>
  The guide of a snap. For an edge alignment it spans the union of the two boxes along
  the other axis (\<open>lo\<close>, \<open>hi\<close>: the dragged box there; \<open>tlo\<close>, \<open>thi\<close>: the target); for a
  center alignment it spans the whole canvas (\<open>0\<close> to \<open>extent\<close>) and is flagged \<open>isCenter\<close>.
\<close>

definition snap_guide ::
  "guide_type \<Rightarrow> alignment \<Rightarrow> real \<Rightarrow> real \<Rightarrow> real \<Rightarrow> real \<Rightarrow> real \<Rightarrow> real \<Rightarrow> guide" where
  "snap_guide gt a coord lo hi tlo thi extent =
     (if a = CenterToCenter
      then \<lparr>guide_type = gt, line = coord, from_px = 0, to_px = extent, isCenter = True\<rparr>
      else \<lparr>guide_type = gt, line = coord, from_px = min lo tlo, to_px = max hi thi,
             isCenter = False\<rparr>)"

text \<open>
  The whole rule: the X axis from the candidate position, then the Y axis from the
  candidate \<open>y\<close> (its guide drawn for the box at the X-adjusted position), then the grid
  for an axis that did not snap.
\<close>

definition spec_snap ::
  "config \<Rightarrow> snap_points \<Rightarrow> target list \<Rightarrow> real \<Rightarrow> real \<Rightarrow> real \<Rightarrow> real \<Rightarrow> snap_result" where
  "spec_snap cfg canvasPoints targets x y w h =
     (let xs = first_snap (\<lambda>t. first_alignment cfg x w (x_edges t)) targets;
          sx = (case xs of None \<Rightarrow> x | Some (t, a) \<Rightarrow> aligned_start a w (x_edges t));
          gx = (case xs of
                  None \<Rightarrow> []
                | Some (t, a) \<Rightarrow>
                    [snap_guide Vertical a (guide_line a (x_edges t)) y (y + h) (p_top t)
                       (p_bottom t) (p_height canvasPoints)]);
          ys = first_snap (\<lambda>t. first_alignment cfg y h (y_edges t)) targets;
          sy = (case ys of None \<Rightarrow> y | Some (t, a) \<Rightarrow> aligned_start a h (y_edges t));
          gy = (case ys of
                  None \<Rightarrow> []
                | Some (t, a) \<Rightarrow>
                    [snap_guide Horizontal a (guide_line a (y_edges t)) sx (sx + w) (p_left t)
                       (p_right t) (p_width canvasPoints)])
      in \<lparr>result_x = (if snapToGrid cfg \<and> xs = None
                       then Math_round (x / gridSize cfg) * gridSize cfg else sx),
          result_y = (if snapToGrid cfg \<and> ys = None
                       then Math_round (y / gridSize cfg) * gridSize cfg else sy),
          result_guides = gx @ gy,
          result_snappedX = Some (xs \<noteq> None),
          result_snappedY = Some (ys \<noteq> None)\<rparr>)"

section \<open>multi\_format\_export.js: the export bundle\<close>

text \<open>
  \<open>window.brochureData\<close> as far as the export reads it: its \<open>pages\<close> property, which may
  be missing. The export talks to the network and to the canvas rasteriser; what they
  answer is a parameter of the model: whether JSZip can be loaded, how the PDF request
  ends, and for which page and format \<open>generatePageImage\<close> resolves with a blob (it
  rejects when \<open>canvas.toBlob\<close> hands back \<open>null\<close> or drawing throws).
\<close>

record brochureData =
  bd_pages :: "page list option"

datatype image_format = JPEG | PNG

datatype fetch_outcome = NetworkError | HttpError | HttpOk

record export_env =
  window_brochureData :: "brochureData option"
  jszip_loads :: bool
  fetch_export :: fetch_outcome
  renders :: "page \<Rightarrow> image_format \<Rightarrow> bool"
  engine_toLowerCase :: "jstring \<Rightarrow> jstring"

datatype request = POST jstring brochureData

text \<open>
  What a file of the archive holds. The HTML preview is kept as the content sections
  it renders.
\<close>

datatype zip_content =
    PdfBlob
  | Folder
  | JpegImage page
  | PngImage page
  | HtmlPreview sections
  | ReadmeText

type_synonym zip_entry = "jstring \<times> zip_content"

text \<open>The decimal digits of a number, as in a template literal.\<close>

fun decimal :: "nat \<Rightarrow> string" where
  "decimal n =
     (if n < 10 then [''0123456789'' ! n] else decimal (n div 10) @ [''0123456789'' ! (n mod 10)])"

declare decimal.simps [simp del]

text \<open>
  \<open>exportPDFBlob\<close>: whether it returns a blob, and the request it sends. Without brochure
  data or pages it throws before fetching and returns \<open>null\<close>.
\<close>

definition exportPDFBlob :: "export_env \<Rightarrow> bool \<times> request list" where
  "exportPDFBlob env =
     (case window_brochureData env of
        None \<Rightarrow> (False, [])
      | Some d \<Rightarrow>
          (case bd_pages d of
             None \<Rightarrow> (False, [])
           | Some ps \<Rightarrow> (fetch_export env = HttpOk, [POST (js ''/api/export/brochure'') d])))"

text \<open>
  The body of the image loop for index \<open>i\<close>: a rejected JPEG jumps to the \<open>catch\<close>, so
  the PNG of that page is not attempted; a rejected PNG leaves the JPEG in place.
\<close>

definition page_images :: "export_env \<Rightarrow> nat \<Rightarrow> page \<Rightarrow> zip_entry list" where
  "page_images env i pg =
     (if renders env pg JPEG then
        (js ''images/page_'' @ js (decimal (i + 1)) @ js ''.jpg'', JpegImage pg)
        # (if renders env pg PNG
           then [(js ''images/page_'' @ js (decimal (i + 1)) @ js ''.png'', PngImage pg)]
           else [])
      else [])"

definition image_loop :: "export_env \<Rightarrow> page list \<Rightarrow> zip_entry list" where
  "image_loop env ps =
     concat (map (\<lambda>i. page_images env i (ps ! i)) [0..<min (length ps) 10])"

definition generateHTMLPreview :: "export_env \<Rightarrow> page list \<Rightarrow> zip_content" where
  "generateHTMLPreview env ps =
     HtmlPreview (extractContentSections (engine_toLowerCase env) (Some ps))"

text \<open>
  \<open>exportMultipleFormats\<close>: the files put into the archive, in order (\<open>None\<close> when the
  export is abandoned because JSZip cannot be loaded), and the requests sent.
\<close>

definition exportMultipleFormats :: "export_env \<Rightarrow> zip_entry list option \<times> request list" where
  "exportMultipleFormats env =
     (if \<not> jszip_loads env then (None, [])
      else
        (let (pdfBlob, reqs) = exportPDFBlob env;
             pdf = (if pdfBlob then [(js ''brochure.pdf'', PdfBlob)] else []);
             ps = (case window_brochureData env of
                     None \<Rightarrow> []
                   | Some d \<Rightarrow> or_obj (bd_pages d) []);
             images = (if length ps > 0 then (js ''images/'', Folder) # image_loop env ps else [])
         in (Some (pdf @ images
                   @ [(js ''preview.html'', generateHTMLPreview env ps),
                      (js ''README.txt'', ReadmeText)]),
             reqs)))"

definition is_image :: "zip_entry \<Rightarrow> bool" where
  "is_image f = (case snd f of JpegImage pg \<Rightarrow> True | PngImage pg \<Rightarrow> True | _ \<Rightarrow> False)"

text \<open>
  A brochure of eleven pages, the last one with a description of its own, exported
  with every collaborator answering.
\<close>

definition plain_page :: page where
  "plain_page = \<lparr>name = Some (js ''Room''), content = None, contentBlocks = None\<rparr>"

definition last_page :: page where
  "last_page =
     \<lparr>name = Some (js ''Annexe''),
      content = Some \<lparr>intro = None, content_highlights = None,
                       description = Some (js ''A separate annexe.'')\<rparr>,
      contentBlocks = None\<rparr>"

definition demo_export :: export_env where
  "demo_export =
     \<lparr>window_brochureData = Some \<lparr>bd_pages = Some (replicate 10 plain_page @ [last_page])\<rparr>,
      jszip_loads = True,
      fetch_export = HttpOk,
      renders = (\<lambda>pg f. True),
      engine_toLowerCase = ascii_lower\<rparr>"

section \<open>Facts about embedded string literals\<close>

lemma js_eq_iff: "js a = js b \<longleftrightarrow> a = b"
proof -
  have "inj (of_char :: char \<Rightarrow> nat)"
    by (rule inj_onI) simp
  then show ?thesis
    unfolding js_def by (rule inj_map_eq_map)
qed

lemma js_Nil: "js [] = []"
  by (simp add: js_def)

lemma js_append: "js a @ js b = js (a @ b)"
  by (simp add: js_def)

section \<open>Properties of the content sections\<close>

lemma distinct_set_add: "distinct acc \<Longrightarrow> distinct (set_add acc x)"
  by (simp add: set_add_def)

lemma distinct_foldl_set_add: "distinct acc \<Longrightarrow> distinct (foldl set_add acc xs)"
proof (induction xs arbitrary: acc)
  case Nil
  then show ?case by simp
next
  case (Cons x xs)
  have "distinct (set_add acc x)" using Cons.prems by (rule distinct_set_add)
  then have "distinct (foldl set_add (set_add acc x) xs)" by (rule Cons.IH)
  then show ?case by simp
qed

lemma distinct_new_Set: "distinct (new_Set xs)"
  unfolding new_Set_def by (rule distinct_foldl_set_add) simp

lemma set_foldl_set_add: "set (foldl set_add acc xs) = set acc \<union> set xs"
  by (induction xs arbitrary: acc) (auto simp: set_add_def)

lemma set_new_Set: "set (new_Set xs) = set xs"
  unfolding new_Set_def by (simp add: set_foldl_set_add)

text \<open>
  C10. For every page list (and every lower-casing function of the engine), the
  \<open>highlights\<close> array returned by \<open>extractContentSections\<close> has pairwise distinct entries
  and at most 8 of them.
\<close>

theorem extractContentSections_highlights_distinct_le_8:
  "distinct (highlights (extractContentSections toLowerCase pages))
   \<and> length (highlights (extractContentSections toLowerCase pages)) \<le> 8"
proof (cases pages)
  case None
  then show ?thesis by (simp add: extractContentSections_def empty_sections_def)
next
  case (Some ps)
  show ?thesis
  proof (cases "length ps = 0")
    case True
    with Some show ?thesis by (simp add: extractContentSections_def empty_sections_def)
  next
    case False
    with Some show ?thesis
      by (simp add: extractContentSections_def Let_def distinct_new_Set)
  qed
qed

theorem extractContentSections_highlights_witness:
  "distinct (highlights (extractContentSections ascii_lower
      (Some [\<lparr>name = Some (js ''Cover''),
              content = Some \<lparr>intro = None,
                content_highlights = Some [js ''a'', js ''b'', js ''a'', js ''c'', js ''d'', js ''e'',
                  js ''f'', js ''g'', js ''h'', js ''i'', js ''b''],
                description = None\<rparr>,
              contentBlocks = None\<rparr>])))
   \<and> length (highlights (extractContentSections ascii_lower
      (Some [\<lparr>name = Some (js ''Cover''),
              content = Some \<lparr>intro = None,
                content_highlights = Some [js ''a'', js ''b'', js ''a'', js ''c'', js ''d'', js ''e'',
                  js ''f'', js ''g'', js ''h'', js ''i'', js ''b''],
                description = None\<rparr>,
              contentBlocks = None\<rparr>]))) \<le> 8"
  by (rule extractContentSections_highlights_distinct_le_8)

section \<open>Properties of the element constructors\<close>

lemma createElementId_parts:
  "fst (createElementId w) = idSupply w (idsIssued w)"
  "snd (createElementId w) = emit CreateElementId (w\<lparr>idsIssued := Suc (idsIssued w)\<rparr>)"
  by (simp_all add: createElementId_def)

lemma createShapeElement_fields:
  "locked (fst (createShapeElement w shapeType options)) = False"
  "visible (fst (createShapeElement w shapeType options)) = True"
  "rotation (fst (createShapeElement w shapeType options)) = 0"
  "elem_id (fst (createShapeElement w shapeType options)) = fst (createElementId w)"
  "snd (createShapeElement w shapeType options) = snd (createElementId w)"
  by (simp_all add: createShapeElement_def split_beta)

lemma createQRCodeElement_fields:
  "locked (fst (createQRCodeElement w u options)) = False"
  "visible (fst (createQRCodeElement w u options)) = True"
  "rotation (fst (createQRCodeElement w u options)) = 0"
  "elem_id (fst (createQRCodeElement w u options)) = fst (createElementId w)"
  "snd (createQRCodeElement w u options) = snd (createElementId w)"
  by (simp_all add: createQRCodeElement_def split_beta)

lemma createIconElement_Some:
  assumes "createIconElement w iconType options = (Some e, w')"
  shows "locked e = False \<and> visible e = True \<and> rotation e = 0
         \<and> elem_id e = fst (createElementId w) \<and> w' = snd (createElementId w)"
  using assms
  by (auto simp: createIconElement_def Let_def split_beta split: if_splits)

lemma createIconElement_known:
  assumes "map_of (or_obj (ICONS_LIBRARY w) []) iconType = Some d"
  shows "\<exists>e. createIconElement w iconType options = (Some e, snd (createElementId w))"
  using assms by (simp add: createIconElement_def js_get_def Let_def split_beta)

text \<open>
  C9. Every element built by \<open>createShapeElement\<close>, \<open>createQRCodeElement\<close> and
  \<open>createIconElement\<close> is unlocked, visible and unrotated, and its id is the value
  returned by the one call to \<open>ElementDrag.createElementId\<close> that the constructor makes.
  For an icon type that is a key of the icon library, \<open>createIconElement\<close> does build
  an element.
\<close>

theorem constructors_unlocked_visible_fresh_id:
  "(locked (fst (createShapeElement w shapeType options)) = False
    \<and> visible (fst (createShapeElement w shapeType options)) = True
    \<and> rotation (fst (createShapeElement w shapeType options)) = 0
    \<and> elem_id (fst (createShapeElement w shapeType options)) = fst (createElementId w)
    \<and> snd (createShapeElement w shapeType options) = snd (createElementId w))
   \<and> (locked (fst (createQRCodeElement w u options)) = False
    \<and> visible (fst (createQRCodeElement w u options)) = True
    \<and> rotation (fst (createQRCodeElement w u options)) = 0
    \<and> elem_id (fst (createQRCodeElement w u options)) = fst (createElementId w)
    \<and> snd (createQRCodeElement w u options) = snd (createElementId w))
   \<and> (\<forall>e w'. createIconElement w iconType options = (Some e, w') \<longrightarrow>
         locked e = False \<and> visible e = True \<and> rotation e = 0
         \<and> elem_id e = fst (createElementId w) \<and> w' = snd (createElementId w))
   \<and> ((\<exists>d. map_of (or_obj (ICONS_LIBRARY w) []) iconType = Some d) \<longrightarrow>
         (\<exists>e. createIconElement w iconType options = (Some e, snd (createElementId w))))"
proof -
  have shape: "locked (fst (createShapeElement w shapeType options)) = False
    \<and> visible (fst (createShapeElement w shapeType options)) = True
    \<and> rotation (fst (createShapeElement w shapeType options)) = 0
    \<and> elem_id (fst (createShapeElement w shapeType options)) = fst (createElementId w)
    \<and> snd (createShapeElement w shapeType options) = snd (createElementId w)"
    by (simp add: createShapeElement_fields)
  have qr: "locked (fst (createQRCodeElement w u options)) = False
    \<and> visible (fst (createQRCodeElement w u options)) = True
    \<and> rotation (fst (createQRCodeElement w u options)) = 0
    \<and> elem_id (fst (createQRCodeElement w u options)) = fst (createElementId w)
    \<and> snd (createQRCodeElement w u options) = snd (createElementId w)"
    by (simp add: createQRCodeElement_fields)
  have icon: "\<forall>e w'. createIconElement w iconType options = (Some e, w') \<longrightarrow>
         locked e = False \<and> visible e = True \<and> rotation e = 0
         \<and> elem_id e = fst (createElementId w) \<and> w' = snd (createElementId w)"
    using createIconElement_Some by blast
  have known: "(\<exists>d. map_of (or_obj (ICONS_LIBRARY w) []) iconType = Some d) \<longrightarrow>
         (\<exists>e. createIconElement w iconType options = (Some e, snd (createElementId w)))"
    using createIconElement_known by blast
  from shape qr icon known show ?thesis by blast
qed

theorem constructors_unlocked_visible_fresh_id_witness:
  "(\<exists>d. map_of (or_obj (ICONS_LIBRARY demo_world) []) (js ''home'') = Some d)
   \<and> (\<exists>e. createIconElement demo_world (js ''home'') no_options
            = (Some e, snd (createElementId demo_world))
          \<and> locked e = False \<and> visible e = True \<and> rotation e = 0
          \<and> elem_id e = fst (createElementId demo_world))
   \<and> locked (fst (createShapeElement demo_world (js ''circle'') no_options)) = False
   \<and> elem_id (fst (createQRCodeElement demo_world None no_options)) = js ''element_0''"
proof -
  have known: "\<exists>d. map_of (or_obj (ICONS_LIBRARY demo_world) []) (js ''home'') = Some d"
    by (simp add: demo_world_def or_obj_def)
  note all = constructors_unlocked_visible_fresh_id
    [of demo_world "js ''circle''" no_options None "js ''home''"]
  from all known obtain e where
    e: "createIconElement demo_world (js ''home'') no_options
          = (Some e, snd (createElementId demo_world))"
    by blast
  from all e have props: "locked e = False \<and> visible e = True \<and> rotation e = 0
      \<and> elem_id e = fst (createElementId demo_world)"
    by blast
  have id0: "fst (createElementId demo_world) = js ''element_0''"
    by (simp add: createElementId_def demo_world_def js_def)
  from all have "locked (fst (createShapeElement demo_world (js ''circle'') no_options)) = False"
    by blast
  moreover from all id0
  have "elem_id (fst (createQRCodeElement demo_world None no_options)) = js ''element_0''"
    by simp
  ultimately show ?thesis using known e props by blast
qed

section \<open>Rejected and unknown requests\<close>

lemma showToast_calls:
  "showToast w message type =
     w\<lparr>calls := calls w @
        [if window_showToast w then WindowShowToast message type
         else ConsoleLog (js ''['' @ type @ js ''] '' @ message)]\<rparr>"
  by (simp add: showToast_def emit_def)

text \<open>
  C6 (as amended). When no page is selected (\<open>EditorState.currentPage\<close> is unset, or
  is the empty string, which is falsy too), \<open>addElementToCurrentPage\<close> and
  \<open>addQRCodeToCurrentPage\<close> leave the whole state as it was and make exactly one call:
  the notice "Please select a page first" of kind warning, shown as a toast when the
  application has installed \<open>window.showToast\<close> and written to the console otherwise.
  No element id is drawn, no history snapshot is requested, no element is added.
\<close>

theorem addElementToCurrentPage_without_page:
  assumes "currentPage w = None \<or> currentPage w = Some []"
  shows "addElementToCurrentPage w elementType shapeType iconType =
           w\<lparr>calls := calls w @
              [if window_showToast w
               then WindowShowToast (js ''Please select a page first'') (js ''warning'')
               else ConsoleLog (js ''[warning] Please select a page first'')]\<rparr>
         \<and> addQRCodeToCurrentPage w =
           w\<lparr>calls := calls w @
              [if window_showToast w
               then WindowShowToast (js ''Please select a page first'') (js ''warning'')
               else ConsoleLog (js ''[warning] Please select a page first'')]\<rparr>"
proof -
  from assms have falsy: "or_str (currentPage w) [] = []"
    by (auto simp: or_str_def)
  have msg: "js ''['' @ js ''warning'' @ js ''] '' @ js ''Please select a page first''
             = js ''[warning] Please select a page first''"
    by (simp add: js_def)
  have "addElementToCurrentPage w t s i =
          showToast w (js ''Please select a page first'') (js ''warning'')" for t s i
    using falsy by (simp add: addElementToCurrentPage_def)
  then show ?thesis
    by (simp add: addQRCodeToCurrentPage_def showToast_calls msg)
qed

theorem addElementToCurrentPage_without_page_witness:
  "currentPage (demo_world\<lparr>currentPage := None\<rparr>) = None
   \<and> addElementToCurrentPage (demo_world\<lparr>currentPage := None\<rparr>) (js ''shape'') (js ''circle'') []
       = demo_world\<lparr>currentPage := None,
           calls := [WindowShowToast (js ''Please select a page first'') (js ''warning'')]\<rparr>
   \<and> addQRCodeToCurrentPage (demo_world\<lparr>currentPage := None\<rparr>)
       = demo_world\<lparr>currentPage := None,
           calls := [WindowShowToast (js ''Please select a page first'') (js ''warning'')]\<rparr>"
proof -
  have h: "currentPage (demo_world\<lparr>currentPage := None\<rparr>) = None
           \<or> currentPage (demo_world\<lparr>currentPage := None\<rparr>) = Some []"
    by simp
  have c: "calls (demo_world\<lparr>currentPage := None\<rparr>) = []"
          "window_showToast (demo_world\<lparr>currentPage := None\<rparr>)"
    by (simp_all add: demo_world_def)
  show ?thesis
    using addElementToCurrentPage_without_page
      [OF h, of "js ''shape''" "js ''circle''" "[]"] c
    by simp
qed

text \<open>
  C6 as stated fails: where the application has installed no \<open>window.showToast\<close> the
  rejection is only logged to the console, and no toast is shown.
\<close>

theorem addElementToCurrentPage_notice_on_console_only:
  "currentPage (demo_world\<lparr>currentPage := None, window_showToast := False\<rparr>) = None
   \<and> addElementToCurrentPage (demo_world\<lparr>currentPage := None, window_showToast := False\<rparr>)
         (js ''shape'') (js ''circle'') []
       = demo_world\<lparr>currentPage := None, window_showToast := False,
           calls := [ConsoleLog (js ''[warning] Please select a page first'')]\<rparr>
   \<and> \<not> (\<exists>m t. WindowShowToast m t
           \<in> set (calls (addElementToCurrentPage
                 (demo_world\<lparr>currentPage := None, window_showToast := False\<rparr>)
                 (js ''shape'') (js ''circle'') [])))"
proof -
  let ?w = "demo_world\<lparr>currentPage := None, window_showToast := False\<rparr>"
  have r: "addElementToCurrentPage ?w (js ''shape'') (js ''circle'') []
       = demo_world\<lparr>currentPage := None, window_showToast := False,
           calls := [ConsoleLog (js ''[warning] Please select a page first'')]\<rparr>"
    by (simp add: addElementToCurrentPage_def or_str_def showToast_calls js_append
        demo_world_def)
  show ?thesis unfolding r by simp
qed

lemma addElementAtPosition_unknown_icon:
  assumes "js_get (or_obj (ICONS_LIBRARY w) []) iconType = NoProp"
  shows "addElementAtPosition w pageId (js ''icon'') shapeType iconType x y =
           w\<lparr>calls := calls w @
              [GetNextZIndex pageId, ConsoleWarn (js ''Unknown icon type:'') iconType]\<rparr>"
proof -
  have ne: "js ''icon'' \<noteq> js ''shape''"
    by (simp add: js_def)
  show ?thesis
    using assms ne
    by (simp add: addElementAtPosition_def getNextZIndex_def createIconElement_def emit_def
        Let_def)
qed

lemma applyColorScheme_unknown:
  assumes "js_get COLOR_SCHEMES schemeId = NoProp"
  shows "applyColorScheme w schemeId currentPageOnly =
           w\<lparr>calls := calls w @ [ConsoleError (js ''Unknown color scheme:'') schemeId]\<rparr>"
  using assms by (simp add: applyColorScheme_def emit_def)

text \<open>
  C7. The guards \<open>if (!scheme)\<close> and \<open>if (!iconDef)\<close> test the result of a property
  lookup in a plain object, and a name inherited from \<open>Object.prototype\<close> passes them.
  Applying the scheme id \<open>constructor\<close>, which is no key of \<open>COLOR_SCHEMES\<close>, records
  the id as the current scheme, repaints the pages, sets the dirty flag and requests
  a history snapshot; creating an icon of type \<open>toString\<close>, which is no key of the icon
  library, adds an element to the page and requests a history snapshot.
\<close>

theorem applyColorScheme_inherited_name_not_rejected:
  "map_of COLOR_SCHEMES (js ''constructor'') = None
   \<and> isDirty (applyColorScheme demo_world (js ''constructor'') False) = True
   \<and> currentScheme (applyColorScheme demo_world (js ''constructor'') False)
       = Some (js ''constructor'')
   \<and> calls (applyColorScheme demo_world (js ''constructor'') False) =
       [ApplyColorsToPages ProtoProp False, UpdateCustomColorInputs ProtoProp,
        RenderColorSchemesGrid,
        WindowShowToast (js ''Applied \"Object\" color scheme'') (js ''success''),
        SaveToHistory (js ''apply color scheme'')]
   \<and> map_of (or_obj (ICONS_LIBRARY demo_world) []) (js ''toString'') = None
   \<and> SaveToHistory (js ''add element'')
       \<in> set (calls (addElementAtPosition demo_world (js ''p1'') (js ''icon'') []
                       (js ''toString'') 10 20))
   \<and> (\<exists>e. AddElementToPage e (js ''p1'')
       \<in> set (calls (addElementAtPosition demo_world (js ''p1'') (js ''icon'') []
                       (js ''toString'') 10 20)))"
proof -
  have a: "map_of COLOR_SCHEMES (js ''constructor'') = None"
    by (simp add: COLOR_SCHEMES_def js_eq_iff)
  have g: "js_get COLOR_SCHEMES (js ''constructor'') = ProtoProp"
    by (simp add: js_get_def a object_prototype_names_def js_eq_iff)
  have w: "applyColorScheme demo_world (js ''constructor'') False =
     demo_world\<lparr>currentScheme := Some (js ''constructor''),
        calls := [ApplyColorsToPages ProtoProp False, UpdateCustomColorInputs ProtoProp,
          RenderColorSchemesGrid,
          WindowShowToast (js ''Applied \"Object\" color scheme'') (js ''success''),
          SaveToHistory (js ''apply color scheme'')],
        isDirty := True\<rparr>"
    by (simp add: applyColorScheme_def g demo_world_def emit_def looked_up_name_def js_append
        Let_def)
  have e: "map_of (or_obj (ICONS_LIBRARY demo_world) []) (js ''toString'') = None"
    by (simp add: demo_world_def or_obj_def js_eq_iff)
  have i: "js_get (or_obj (ICONS_LIBRARY demo_world) []) (js ''toString'') = ProtoProp"
    by (simp add: js_get_def e object_prototype_names_def js_eq_iff)
  have f: "calls (addElementAtPosition demo_world (js ''p1'') (js ''icon'') []
                       (js ''toString'') 10 20) =
      [GetNextZIndex (js ''p1''), CreateElementId, SaveToHistory (js ''add element''),
       AddElementToPage
         \<lparr>elem_id = js ''element_'' @ [48], elem_type = js ''icon'',
          elem_position = \<lparr>pos_x = 10, pos_y = 20\<rparr>,
          elem_size = \<lparr>width = 48, height = 48\<rparr>, rotation = 0, zIndex = 11,
          locked = False, visible = True, opacity = 1,
          payload = IconProps (js ''toString'') (js ''#374151'') None None\<rparr>
         (js ''p1''),
       SelectElementAfter50ms (js ''element_'' @ [48]),
       WindowShowToast (js ''Added icon'') (js ''success'')]"
    using i
    by (simp add: addElementAtPosition_def getNextZIndex_def createIconElement_def
        createElementId_def showToast_def emit_def Let_def js_eq_iff js_append
        demo_world_def no_options_def or_obj_def or_num_def or_str_def)
  from a w e f show ?thesis by simp
qed

section \<open>The snapping loops against the rule of the specification\<close>

lemma first_alignment_cases:
  "first_alignment cfg lo sz (tlo, thi, tc) =
     (if \<bar>lo - tlo\<bar> \<le> snapThreshold cfg then Some StartToStart
      else if \<bar>lo + sz - thi\<bar> \<le> snapThreshold cfg then Some EndToEnd
      else if \<bar>lo - thi\<bar> \<le> snapThreshold cfg then Some StartToEnd
      else if \<bar>lo + sz - tlo\<bar> \<le> snapThreshold cfg then Some EndToStart
      else if snapToCenter cfg \<and> \<bar>lo + sz / 2 - tc\<bar> \<le> snapThreshold cfg then Some CenterToCenter
      else None)"
  by (simp add: first_alignment_def precedence_def alignment_matches_def align_distance_def)

lemma x_body_spec:
  "x_body cfg (moving_box x y w h) cp t v =
     (case first_alignment cfg x w (x_edges t) of
        None \<Rightarrow> v
      | Some a \<Rightarrow>
          v\<lparr>snappedX := aligned_start a w (x_edges t),
            activeGuides := activeGuides v @
              [snap_guide Vertical a (guide_line a (x_edges t)) y (y + h) (p_top t) (p_bottom t)
                 (p_height cp)],
            xSnapped := True\<rparr>)"
  by (simp add: x_body_def moving_box_def x_edges_def first_alignment_cases aligned_start_def
      guide_line_def snap_guide_def)

lemma x_loop_snapped: "xSnapped v \<Longrightarrow> x_loop cfg m cp ts v = v"
  by (cases ts) simp_all

lemma x_loop_spec:
  assumes "\<not> xSnapped v"
  shows "x_loop cfg (moving_box x y w h) cp ts v =
     (case first_snap (\<lambda>t. first_alignment cfg x w (x_edges t)) ts of
        None \<Rightarrow> v
      | Some (t, a) \<Rightarrow>
          v\<lparr>snappedX := aligned_start a w (x_edges t),
            activeGuides := activeGuides v @
              [snap_guide Vertical a (guide_line a (x_edges t)) y (y + h) (p_top t) (p_bottom t)
                 (p_height cp)],
            xSnapped := True\<rparr>)"
  using assms
proof (induction ts)
  case Nil
  then show ?case by simp
next
  case (Cons t ts)
  show ?case
  proof (cases "first_alignment cfg x w (x_edges t)")
    case None
    then have "x_body cfg (moving_box x y w h) cp t v = v" by (simp add: x_body_spec)
    with Cons None show ?thesis by simp
  next
    case (Some a)
    then show ?thesis using Cons.prems by (simp add: x_body_spec x_loop_snapped)
  qed
qed

lemma y_body_spec:
  "y_body cfg (moving_box x y w h) cp t v =
     (case first_alignment cfg y h (y_edges t) of
        None \<Rightarrow> v
      | Some a \<Rightarrow>
          v\<lparr>snappedY := aligned_start a h (y_edges t),
            activeGuides := activeGuides v @
              [snap_guide Horizontal a (guide_line a (y_edges t)) (snappedX v) (snappedX v + w)
                 (p_left t) (p_right t) (p_width cp)],
            ySnapped := True\<rparr>)"
  by (simp add: y_body_def moving_box_def y_edges_def first_alignment_cases aligned_start_def
      guide_line_def snap_guide_def Let_def)

lemma y_loop_snapped: "ySnapped v \<Longrightarrow> y_loop cfg m cp ts v = v"
  by (cases ts) simp_all

lemma y_loop_spec:
  assumes "\<not> ySnapped v"
  shows "y_loop cfg (moving_box x y w h) cp ts v =
     (case first_snap (\<lambda>t. first_alignment cfg y h (y_edges t)) ts of
        None \<Rightarrow> v
      | Some (t, a) \<Rightarrow>
          v\<lparr>snappedY := aligned_start a h (y_edges t),
            activeGuides := activeGuides v @
              [snap_guide Horizontal a (guide_line a (y_edges t)) (snappedX v) (snappedX v + w)
                 (p_left t) (p_right t) (p_width cp)],
            ySnapped := True\<rparr>)"
  using assms
proof (induction ts)
  case Nil
  then show ?case by simp
next
  case (Cons t ts)
  show ?case
  proof (cases "first_alignment cfg y h (y_edges t)")
    case None
    then have "y_body cfg (moving_box x y w h) cp t v = v" by (simp add: y_body_spec)
    with Cons None show ?thesis by simp
  next
    case (Some a)
    then show ?thesis using Cons.prems by (simp add: y_body_spec y_loop_snapped)
  qed
qed

lemma moving_box_new:
  "newX (moving_box x y w h) = x" "newY (moving_box x y w h) = y"
  by (simp_all add: moving_box_def)

lemma loops_eq_spec:
  "(let v0 = \<lparr>snappedX = x, snappedY = y, activeGuides = [], xSnapped = False, ySnapped = False\<rparr>;
        v1 = x_loop cfg (moving_box x y w h) cp ts v0;
        v2 = y_loop cfg (moving_box x y w h) cp ts v1;
        v3 = grid_snap cfg (moving_box x y w h) v2
    in \<lparr>result_x = snappedX v3, result_y = snappedY v3, result_guides = activeGuides v3,
         result_snappedX = Some (xSnapped v3), result_snappedY = Some (ySnapped v3)\<rparr>)
   = spec_snap cfg cp ts x y w h"
proof (cases "first_snap (\<lambda>t. first_alignment cfg x w (x_edges t)) ts")
  case xn: None
  show ?thesis
  proof (cases "first_snap (\<lambda>t. first_alignment cfg y h (y_edges t)) ts")
    case None
    with xn show ?thesis
      by (simp add: Let_def x_loop_spec y_loop_spec grid_snap_def spec_snap_def moving_box_new)
  next
    case (Some p)
    with xn show ?thesis
      by (cases p) (simp add: Let_def x_loop_spec y_loop_spec grid_snap_def spec_snap_def moving_box_new)
  qed
next
  case xs: (Some q)
  show ?thesis
  proof (cases "first_snap (\<lambda>t. first_alignment cfg y h (y_edges t)) ts")
    case None
    with xs show ?thesis
      by (cases q) (simp add: Let_def x_loop_spec y_loop_spec grid_snap_def spec_snap_def moving_box_new)
  next
    case (Some p)
    with xs show ?thesis
      by (cases q; cases p)
        (simp add: Let_def x_loop_spec y_loop_spec grid_snap_def spec_snap_def moving_box_new)
  qed
qed

lemma getCanvasSnapPoints_activeElement:
  "getCanvasSnapPoints (s\<lparr>activeElement := a\<rparr>) = getCanvasSnapPoints s"
  by (simp add: getCanvasSnapPoints_def split: option.splits)

lemma calculateSnap_enabled:
  assumes "isEnabled s" "canvas s = Some c"
  shows "fst (calculateSnap s e x y) =
           spec_snap (CONFIG s) (the (getCanvasSnapPoints s))
             (snapTargets (s\<lparr>activeElement := Some e\<rparr>)) x y
             (rect_width (bounding (document s e))) (rect_height (bounding (document s e)))"
proof -
  have "fst (calculateSnap s e x y) =
    (let v0 = \<lparr>snappedX = x, snappedY = y, activeGuides = [], xSnapped = False, ySnapped = False\<rparr>;
        v1 = x_loop (CONFIG s) (moving_box x y (rect_width (bounding (document s e)))
               (rect_height (bounding (document s e)))) (the (getCanvasSnapPoints s))
               (snapTargets (s\<lparr>activeElement := Some e\<rparr>)) v0;
        v2 = y_loop (CONFIG s) (moving_box x y (rect_width (bounding (document s e)))
               (rect_height (bounding (document s e)))) (the (getCanvasSnapPoints s))
               (snapTargets (s\<lparr>activeElement := Some e\<rparr>)) v1;
        v3 = grid_snap (CONFIG s) (moving_box x y (rect_width (bounding (document s e)))
               (rect_height (bounding (document s e)))) v2
    in \<lparr>result_x = snappedX v3, result_y = snappedY v3, result_guides = activeGuides v3,
         result_snappedX = Some (xSnapped v3), result_snappedY = Some (ySnapped v3)\<rparr>)"
    using assms
    by (simp add: calculateSnap_def Let_def getCanvasSnapPoints_activeElement)
  then show ?thesis by (simp only: loops_eq_spec)
qed

lemma calculateSnap_disabled:
  assumes "\<not> isEnabled s \<or> canvas s = None"
  shows "calculateSnap s e x y =
           (\<lparr>result_x = x, result_y = y, result_guides = [], result_snappedX = None,
             result_snappedY = None\<rparr>, s)"
  using assms by (auto simp: calculateSnap_def)

lemma calculateSnap_state:
  "snd (calculateSnap s e x y) =
     (if \<not> isEnabled s \<or> canvas s = None then s else s\<lparr>activeElement := Some e\<rparr>)"
  by (simp add: calculateSnap_def Let_def)

section \<open>Rounding, configuration changes and the parts of the rule\<close>

lemma Math_round_multiple: "\<exists>k::int. Math_round (v / g) * g = of_int k * g"
  unfolding Math_round_def by blast

lemma Math_round_nearest:
  assumes "g \<noteq> 0"
  shows "\<bar>Math_round (v / g) * g - v\<bar> \<le> \<bar>of_int m * g - v\<bar>"
proof -
  define t where "t = v / g"
  define k where "k = \<lfloor>t + 1 / 2\<rfloor>"
  have k1: "of_int k \<le> t + 1 / 2"
    unfolding k_def by (rule of_int_floor_le)
  have k2: "t + 1 / 2 < of_int k + 1"
    unfolding k_def by (rule floor_correct[THEN conjunct2, simplified]) 
  have mt: "\<bar>of_int k - t\<bar> \<le> \<bar>of_int m - t\<bar>"
  proof (cases "m = k")
    case True
    then show ?thesis by simp
  next
    case False
    then have "m \<le> k - 1 \<or> k + 1 \<le> m" by linarith
    then have "(of_int m :: real) \<le> of_int k - 1 \<or> of_int k + 1 \<le> (of_int m :: real)"
    proof
      assume "m \<le> k - 1"
      then have "(of_int m :: real) \<le> of_int (k - 1)" by (simp only: of_int_le_iff)
      then show ?thesis by simp
    next
      assume "k + 1 \<le> m"
      then have "(of_int (k + 1) :: real) \<le> of_int m" by (simp only: of_int_le_iff)
      then show ?thesis by simp
    qed
    with k1 k2 show ?thesis by linarith
  qed
  have v: "v = t * g"
    using assms by (simp add: t_def)
  have "\<bar>Math_round (v / g) * g - v\<bar> = \<bar>(of_int k - t) * g\<bar>"
    unfolding Math_round_def k_def t_def[symmetric] by (simp add: v algebra_simps)
  also have "\<dots> = \<bar>of_int k - t\<bar> * \<bar>g\<bar>"
    by (rule abs_mult)
  also have "\<dots> \<le> \<bar>of_int m - t\<bar> * \<bar>g\<bar>"
    using mt by (rule mult_right_mono) simp
  also have "\<dots> = \<bar>(of_int m - t) * g\<bar>"
    by (rule abs_mult[symmetric])
  also have "\<dots> = \<bar>of_int m * g - v\<bar>"
    by (simp add: v algebra_simps)
  finally show ?thesis .
qed

lemma alignment_matches_snapToGrid:
  "alignment_matches (cfg\<lparr>snapToGrid := b\<rparr>) lo sz t = alignment_matches cfg lo sz t"
  by (rule ext) (simp add: alignment_matches_def)

lemma first_alignment_snapToGrid:
  "first_alignment (cfg\<lparr>snapToGrid := b\<rparr>) lo sz t = first_alignment cfg lo sz t"
  by (simp add: first_alignment_def alignment_matches_snapToGrid)

lemma snapTargets_snapToGrid:
  "snapTargets (s\<lparr>CONFIG := (CONFIG s)\<lparr>snapToGrid := b\<rparr>, activeElement := a\<rparr>)
     = snapTargets (s\<lparr>activeElement := a\<rparr>)"
  by (simp add: snapTargets_def getCanvasSnapPoints_def getSnappableElements_def
      getElementSnapPoints_def split: option.splits)

lemma getCanvasSnapPoints_CONFIG:
  "getCanvasSnapPoints (s\<lparr>CONFIG := cfg\<rparr>) = getCanvasSnapPoints s"
  by (simp add: getCanvasSnapPoints_def split: option.splits)

lemma spec_snap_x:
  "result_x (spec_snap cfg cp ts x y w h) =
     (case first_snap (\<lambda>t. first_alignment cfg x w (x_edges t)) ts of
        None \<Rightarrow> if snapToGrid cfg then Math_round (x / gridSize cfg) * gridSize cfg else x
      | Some (t, a) \<Rightarrow> aligned_start a w (x_edges t))"
  by (simp add: spec_snap_def Let_def split: option.splits)

lemma spec_snap_y:
  "result_y (spec_snap cfg cp ts x y w h) =
     (case first_snap (\<lambda>t. first_alignment cfg y h (y_edges t)) ts of
        None \<Rightarrow> if snapToGrid cfg then Math_round (y / gridSize cfg) * gridSize cfg else y
      | Some (t, a) \<Rightarrow> aligned_start a h (y_edges t))"
  by (simp add: spec_snap_def Let_def split: option.splits)

lemma spec_snap_snappedX:
  "result_snappedX (spec_snap cfg cp ts x y w h) =
     Some (first_snap (\<lambda>t. first_alignment cfg x w (x_edges t)) ts \<noteq> None)"
  by (simp add: spec_snap_def Let_def)

lemma spec_snap_snappedY:
  "result_snappedY (spec_snap cfg cp ts x y w h) =
     Some (first_snap (\<lambda>t. first_alignment cfg y h (y_edges t)) ts \<noteq> None)"
  by (simp add: spec_snap_def Let_def)

lemma spec_snap_guides:
  "result_guides (spec_snap cfg cp ts x y w h) =
     (case first_snap (\<lambda>t. first_alignment cfg x w (x_edges t)) ts of
        None \<Rightarrow> []
      | Some (t, a) \<Rightarrow>
          [snap_guide Vertical a (guide_line a (x_edges t)) y (y + h) (p_top t) (p_bottom t)
             (p_height cp)])
     @ (case first_snap (\<lambda>t. first_alignment cfg y h (y_edges t)) ts of
          None \<Rightarrow> []
        | Some (t, a) \<Rightarrow>
            [snap_guide Horizontal a (guide_line a (y_edges t))
               (result_x (spec_snap (cfg\<lparr>snapToGrid := False\<rparr>) cp ts x y w h))
               (result_x (spec_snap (cfg\<lparr>snapToGrid := False\<rparr>) cp ts x y w h) + w)
               (p_left t) (p_right t) (p_width cp)])"
  by (simp add: spec_snap_def Let_def first_alignment_snapToGrid split: option.splits)

lemma first_snap_None_iff: "first_snap f ts = None \<longleftrightarrow> (\<forall>t\<in>set ts. f t = None)"
  by (induction ts) (auto split: option.splits)

lemma snap_guide_type: "guide_type (snap_guide gt a l lo hi tlo thi ex) = gt"
  by (simp add: snap_guide_def)


lemma snap_guide_line: "line (snap_guide gt a l lo hi tlo thi ex) = l"
  by (simp add: snap_guide_def)

lemma snap_guide_isCenter: "isCenter (snap_guide gt a l lo hi tlo thi ex) = (a = CenterToCenter)"
  by (simp add: snap_guide_def)

lemma spec_snap_vertical_guides:
  "filter (\<lambda>g. guide_type g = Vertical) (result_guides (spec_snap cfg cp ts x y w h)) =
     (case first_snap (\<lambda>t. first_alignment cfg x w (x_edges t)) ts of
        None \<Rightarrow> []
      | Some (t, a) \<Rightarrow>
          [snap_guide Vertical a (guide_line a (x_edges t)) y (y + h) (p_top t) (p_bottom t)
             (p_height cp)])"
proof (cases "first_snap (\<lambda>t. first_alignment cfg x w (x_edges t)) ts")
  case xn: None
  show ?thesis
  proof (cases "first_snap (\<lambda>t. first_alignment cfg y h (y_edges t)) ts")
    case None
    with xn show ?thesis by (simp add: spec_snap_def Let_def)
  next
    case (Some p)
    with xn show ?thesis by (cases p) (simp add: spec_snap_def Let_def snap_guide_type)
  qed
next
  case xs: (Some q)
  show ?thesis
  proof (cases "first_snap (\<lambda>t. first_alignment cfg y h (y_edges t)) ts")
    case None
    with xs show ?thesis by (cases q) (simp add: spec_snap_def Let_def snap_guide_type)
  next
    case (Some p)
    with xs show ?thesis by (cases q; cases p) (simp add: spec_snap_def Let_def snap_guide_type)
  qed
qed

lemma spec_snap_horizontal_guides:
  "map (\<lambda>g. (line g, isCenter g))
     (filter (\<lambda>g. guide_type g = Horizontal) (result_guides (spec_snap cfg cp ts x y w h))) =
     (case first_snap (\<lambda>t. first_alignment cfg y h (y_edges t)) ts of
        None \<Rightarrow> []
      | Some (t, a) \<Rightarrow> [(guide_line a (y_edges t), a = CenterToCenter)])"
proof (cases "first_snap (\<lambda>t. first_alignment cfg x w (x_edges t)) ts")
  case xn: None
  show ?thesis
  proof (cases "first_snap (\<lambda>t. first_alignment cfg y h (y_edges t)) ts")
    case None
    with xn show ?thesis by (simp add: spec_snap_def Let_def)
  next
    case (Some p)
    with xn show ?thesis
      by (cases p) (simp add: spec_snap_def Let_def snap_guide_type snap_guide_line snap_guide_isCenter)
  qed
next
  case xs: (Some q)
  show ?thesis
  proof (cases "first_snap (\<lambda>t. first_alignment cfg y h (y_edges t)) ts")
    case None
    with xs show ?thesis by (cases q) (simp add: spec_snap_def Let_def snap_guide_type)
  next
    case (Some p)
    with xs show ?thesis
      by (cases q; cases p)
        (simp add: spec_snap_def Let_def snap_guide_type snap_guide_line snap_guide_isCenter)
  qed
qed

lemma length_case_le_1:
  "length (case v of None \<Rightarrow> [] | Some (t, a) \<Rightarrow> [f t a]) \<le> 1"
  by (simp split: option.splits)


lemma calculateSnap_x_independent:
  "result_x (fst (calculateSnap s e x y)) = result_x (fst (calculateSnap s e x y'))
   \<and> result_snappedX (fst (calculateSnap s e x y)) = result_snappedX (fst (calculateSnap s e x y'))"
proof (cases "\<not> isEnabled s \<or> canvas s = None")
  case True
  then show ?thesis by (simp add: calculateSnap_disabled)
next
  case False
  then obtain c where en: "isEnabled s" "canvas s = Some c" by auto
  show ?thesis
    unfolding calculateSnap_enabled[OF en] by (simp only: spec_snap_x spec_snap_snappedX)
qed

lemma calculateSnap_y_independent:
  "result_y (fst (calculateSnap s e x y)) = result_y (fst (calculateSnap s e x' y))
   \<and> result_snappedY (fst (calculateSnap s e x y)) = result_snappedY (fst (calculateSnap s e x' y))"
proof (cases "\<not> isEnabled s \<or> canvas s = None")
  case True
  then show ?thesis by (simp add: calculateSnap_disabled)
next
  case False
  then obtain c where en: "isEnabled s" "canvas s = Some c" by auto
  show ?thesis
    unfolding calculateSnap_enabled[OF en] by (simp only: spec_snap_y spec_snap_snappedY)
qed

lemma demo_state_CONFIG: "demo_state = demo_state\<lparr>CONFIG := default_CONFIG\<rparr>"
  by (simp add: demo_state_def)

lemma demo_targets:
  "snapTargets (demo_state\<lparr>activeElement := Some 1, CONFIG := cfg\<rparr>) =
     snap_points.extend \<lparr>p_left = 0, p_top = 0, p_right = 800, p_bottom = 600, p_centerX = 400,
            p_centerY = 300, p_width = 800, p_height = 600\<rparr> (target.fields CanvasTarget)
     # (if snapToElements cfg then
         [snap_points.extend \<lparr>p_left = 200, p_top = 100, p_right = 400, p_bottom = 200,
            p_centerX = 300, p_centerY = 150, p_width = 200, p_height = 100\<rparr>
            (target.fields (ElementTarget 2))]
        else [])"
  by (simp add: snapTargets_def getCanvasSnapPoints_def getSnappableElements_def
      getElementSnapPoints_def demo_state_def demo_document_def Let_def)

lemma demo_canvas_points:
  "getCanvasSnapPoints (demo_state\<lparr>CONFIG := cfg\<rparr>) =
     Some \<lparr>p_left = 0, p_top = 0, p_right = 800, p_bottom = 600, p_centerX = 400,
      p_centerY = 300, p_width = 800, p_height = 600\<rparr>"
  by (simp add: getCanvasSnapPoints_def demo_state_def demo_document_def Let_def)

lemma demo_enabled:
  "isEnabled (demo_state\<lparr>CONFIG := cfg\<rparr>)" "canvas (demo_state\<lparr>CONFIG := cfg\<rparr>) = Some 0"
  by (simp_all add: demo_state_def)

lemma demo_element_size:
  "rect_width (bounding (document (demo_state\<lparr>CONFIG := cfg\<rparr>) 1)) = 100"
  "rect_height (bounding (document (demo_state\<lparr>CONFIG := cfg\<rparr>) 1)) = 50"
  by (simp_all add: demo_state_def demo_document_def)

lemma demo_run:
  "fst (calculateSnap (demo_state\<lparr>CONFIG := cfg\<rparr>) 1 x y) =
     spec_snap cfg
       \<lparr>p_left = 0, p_top = 0, p_right = 800, p_bottom = 600, p_centerX = 400,
        p_centerY = 300, p_width = 800, p_height = 600\<rparr>
       (snap_points.extend \<lparr>p_left = 0, p_top = 0, p_right = 800, p_bottom = 600, p_centerX = 400,
            p_centerY = 300, p_width = 800, p_height = 600\<rparr> (target.fields CanvasTarget)
     # (if snapToElements cfg then
         [snap_points.extend \<lparr>p_left = 200, p_top = 100, p_right = 400, p_bottom = 200,
            p_centerX = 300, p_centerY = 150, p_width = 200, p_height = 100\<rparr>
            (target.fields (ElementTarget 2))]
        else []))
       x y 100 50"
proof -
  have t: "snapTargets (demo_state\<lparr>CONFIG := cfg, activeElement := Some 1\<rparr>) =
      snapTargets (demo_state\<lparr>activeElement := Some 1, CONFIG := cfg\<rparr>)"
    by (simp add: demo_state_def)
  show ?thesis
    unfolding calculateSnap_enabled[OF demo_enabled] demo_canvas_points t demo_targets
      demo_element_size
    by simp
qed

lemmas spec_eval = spec_snap_def first_alignment_cases x_edges_def y_edges_def
  aligned_start_def guide_line_def snap_guide_def snap_points.defs target.defs Let_def

lemma demo_center_snap:
  "fst (calculateSnap (demo_state\<lparr>CONFIG := default_CONFIG\<rparr>) 1 250 300) =
   \<lparr>result_x = 250, result_y = 300,
    result_guides =
      [\<lparr>guide_type = Vertical, line = 300, from_px = 0, to_px = 600, isCenter = True\<rparr>],
    result_snappedX = Some True, result_snappedY = Some False\<rparr>"
  unfolding demo_run by (simp add: spec_eval default_CONFIG_def)

lemma demo_no_center_snap:
  "fst (calculateSnap (demo_state\<lparr>CONFIG := default_CONFIG\<lparr>snapToCenter := False\<rparr>\<rparr>) 1 250 300) =
   \<lparr>result_x = 250, result_y = 300, result_guides = [],
    result_snappedX = Some False, result_snappedY = Some False\<rparr>"
  unfolding demo_run by (simp add: spec_eval default_CONFIG_def)

lemma demo_no_element_snap:
  "fst (calculateSnap (demo_state\<lparr>CONFIG := default_CONFIG\<lparr>snapToElements := False\<rparr>\<rparr>) 1 203 300) =
   \<lparr>result_x = 203, result_y = 300, result_guides = [],
    result_snappedX = Some False, result_snappedY = Some False\<rparr>"
  unfolding demo_run by (simp add: spec_eval default_CONFIG_def)

lemma demo_element_snap:
  "fst (calculateSnap (demo_state\<lparr>CONFIG := default_CONFIG\<rparr>) 1 203 300) =
   \<lparr>result_x = 200, result_y = 300,
    result_guides =
      [\<lparr>guide_type = Vertical, line = 200, from_px = 100, to_px = 350, isCenter = False\<rparr>],
    result_snappedX = Some True, result_snappedY = Some False\<rparr>"
  unfolding demo_run by (simp add: spec_eval default_CONFIG_def)

lemma demo_edge_snaps:
  "fst (calculateSnap (demo_state\<lparr>CONFIG := default_CONFIG\<rparr>) 1 3 95) =
   \<lparr>result_x = 0, result_y = 100,
    result_guides =
      [\<lparr>guide_type = Vertical, line = 0, from_px = 0, to_px = 600, isCenter = False\<rparr>,
       \<lparr>guide_type = Horizontal, line = 100, from_px = 0, to_px = 400, isCenter = False\<rparr>],
    result_snappedX = Some True, result_snappedY = Some True\<rparr>"
  unfolding demo_run by (simp add: spec_eval default_CONFIG_def)

lemma demo_y_snap_only:
  "fst (calculateSnap (demo_state\<lparr>CONFIG := default_CONFIG\<rparr>) 1 120 95) =
   \<lparr>result_x = 120, result_y = 100,
    result_guides =
      [\<lparr>guide_type = Horizontal, line = 100, from_px = 120, to_px = 400, isCenter = False\<rparr>],
    result_snappedX = Some False, result_snappedY = Some True\<rparr>"
  unfolding demo_run by (simp add: spec_eval default_CONFIG_def)

lemma Math_round_12_3: "Math_round (123 / 10) = 12"
  by (simp add: Math_round_def)

lemma Math_round_30_3: "Math_round (303 / 10) = 30"
  by (simp add: Math_round_def)

lemma demo_grid:
  "fst (calculateSnap (demo_state\<lparr>CONFIG := default_CONFIG\<lparr>snapToGrid := True\<rparr>\<rparr>) 1 123 303) =
   \<lparr>result_x = 120, result_y = 300, result_guides = [],
    result_snappedX = Some False, result_snappedY = Some False\<rparr>"
  unfolding demo_run by (simp add: spec_eval default_CONFIG_def Math_round_12_3 Math_round_30_3)

lemma demo_disabled:
  "fst (calculateSnap (demo_state\<lparr>CONFIG := cfg, isEnabled := False\<rparr>) 1 x y) =
   \<lparr>result_x = x, result_y = y, result_guides = [],
    result_snappedX = None, result_snappedY = None\<rparr>"
  by (simp add: calculateSnap_disabled)

lemma overlap_run:
  "fst (calculateSnap overlap_state 1 x y) =
     spec_snap default_CONFIG
       \<lparr>p_left = 0, p_top = 0, p_right = 800, p_bottom = 600, p_centerX = 400,
        p_centerY = 300, p_width = 800, p_height = 600\<rparr>
       [snap_points.extend \<lparr>p_left = 0, p_top = 0, p_right = 800, p_bottom = 600,
            p_centerX = 400, p_centerY = 300, p_width = 800, p_height = 600\<rparr>
            (target.fields CanvasTarget),
        snap_points.extend \<lparr>p_left = 352, p_top = 100, p_right = 552, p_bottom = 200,
            p_centerX = 452, p_centerY = 150, p_width = 200, p_height = 100\<rparr>
            (target.fields (ElementTarget 2))]
       x y 100 50"
proof -
  have en: "isEnabled overlap_state" "canvas overlap_state = Some 0"
    by (simp_all add: overlap_state_def)
  have cp: "getCanvasSnapPoints overlap_state =
     Some \<lparr>p_left = 0, p_top = 0, p_right = 800, p_bottom = 600, p_centerX = 400,
      p_centerY = 300, p_width = 800, p_height = 600\<rparr>"
    by (simp add: getCanvasSnapPoints_def overlap_state_def overlap_document_def Let_def)
  have ts: "snapTargets (overlap_state\<lparr>activeElement := Some 1\<rparr>) =
       [snap_points.extend \<lparr>p_left = 0, p_top = 0, p_right = 800, p_bottom = 600,
            p_centerX = 400, p_centerY = 300, p_width = 800, p_height = 600\<rparr>
            (target.fields CanvasTarget),
        snap_points.extend \<lparr>p_left = 352, p_top = 100, p_right = 552, p_bottom = 200,
            p_centerX = 452, p_centerY = 150, p_width = 200, p_height = 100\<rparr>
            (target.fields (ElementTarget 2))]"
    by (simp add: snapTargets_def getCanvasSnapPoints_def getSnappableElements_def
        getElementSnapPoints_def overlap_state_def overlap_document_def default_CONFIG_def
        Let_def)
  have wh: "rect_width (bounding (document overlap_state 1)) = 100"
      "rect_height (bounding (document overlap_state 1)) = 50"
      "CONFIG overlap_state = default_CONFIG"
    by (simp_all add: overlap_state_def overlap_document_def)
  show ?thesis
    unfolding calculateSnap_enabled[OF en] cp ts wh by simp
qed

lemma overlap_center_first:
  "fst (calculateSnap overlap_state 1 350 300) =
   \<lparr>result_x = 350, result_y = 300,
    result_guides =
      [\<lparr>guide_type = Vertical, line = 400, from_px = 0, to_px = 600, isCenter = True\<rparr>],
    result_snappedX = Some True, result_snappedY = Some False\<rparr>"
  unfolding overlap_run by (simp add: spec_eval default_CONFIG_def)

lemma overlap_sibling_left:
  "p_left (getElementSnapPoints overlap_state 0 2) = 352"
  "matches_selector (document overlap_state 2)"
  "\<not> offsetParent_null (document overlap_state 2)"
  "snapThreshold (CONFIG overlap_state) = 8"
  by (simp_all add: getElementSnapPoints_def overlap_state_def overlap_document_def
      default_CONFIG_def Let_def)

lemma demo_both_snap:
  "fst (calculateSnap (demo_state\<lparr>CONFIG := default_CONFIG\<rparr>) 1 203 95) =
   \<lparr>result_x = 200, result_y = 100,
    result_guides =
      [\<lparr>guide_type = Vertical, line = 200, from_px = 95, to_px = 200, isCenter = False\<rparr>,
       \<lparr>guide_type = Horizontal, line = 100, from_px = 200, to_px = 400, isCenter = False\<rparr>],
    result_snappedX = Some True, result_snappedY = Some True\<rparr>"
  unfolding demo_run by (simp add: spec_eval default_CONFIG_def)

section \<open>Claims about snapping\<close>

text \<open>
  C1 (as amended). When smart guides are enabled and a canvas is initialised,
  \<open>calculateSnap\<close> returns what the rule of the specification gives when the precedence
  of alignments is applied target by target: per axis (X, then Y) the targets are taken
  in the order of the target list, the canvas first; for each target the alignments are
  tried in the precedence start-to-start, end-to-end, start-to-end, end-to-start and
  then, only when \<open>CONFIG.snapToCenter\<close> is set, center-to-center; the first alignment
  within \<open>CONFIG.snapThreshold\<close> (8 by default) of the first target that has one decides
  the coordinate and emits one guide, so a later alignment of an earlier target wins
  over an earlier alignment of a later target. The guide of an edge alignment spans the
  union of the target and the dragged box along the other axis, the box taken at the
  candidate Y for the vertical guide and at the X-adjusted position for the horizontal
  guide; the guide of a center alignment spans the whole canvas.
\<close>

theorem calculateSnap_follows_precedence:
  assumes "isEnabled s" and "canvas s = Some c"
  shows "(\<exists>canvasPoints. getCanvasSnapPoints s = Some canvasPoints
           \<and> fst (calculateSnap s e x y) =
               spec_snap (CONFIG s) canvasPoints (snapTargets (snd (calculateSnap s e x y))) x y
                 (rect_width (bounding (document s e))) (rect_height (bounding (document s e))))
         \<and> snapThreshold default_CONFIG = 8"
proof -
  have st: "snd (calculateSnap s e x y) = s\<lparr>activeElement := Some e\<rparr>"
    using assms by (simp add: calculateSnap_state)
  obtain cp where cp: "getCanvasSnapPoints s = Some cp"
    using assms(2) by (simp add: getCanvasSnapPoints_def Let_def)
  have "fst (calculateSnap s e x y) =
          spec_snap (CONFIG s) cp (snapTargets (snd (calculateSnap s e x y))) x y
            (rect_width (bounding (document s e))) (rect_height (bounding (document s e)))"
    unfolding st using calculateSnap_enabled[OF assms, of e x y] cp by simp
  with cp show ?thesis by (simp add: default_CONFIG_def)
qed

theorem calculateSnap_follows_precedence_witness:
  "isEnabled demo_state \<and> canvas demo_state = Some 0
   \<and> fst (calculateSnap demo_state 1 3 95) =
       \<lparr>result_x = 0, result_y = 100,
        result_guides =
          [\<lparr>guide_type = Vertical, line = 0, from_px = 0, to_px = 600, isCenter = False\<rparr>,
           \<lparr>guide_type = Horizontal, line = 100, from_px = 0, to_px = 400, isCenter = False\<rparr>],
        result_snappedX = Some True, result_snappedY = Some True\<rparr>
   \<and> (\<exists>canvasPoints. getCanvasSnapPoints demo_state = Some canvasPoints
         \<and> spec_snap (CONFIG demo_state) canvasPoints
              (snapTargets (snd (calculateSnap demo_state 1 3 95))) 3 95
              (rect_width (bounding (document demo_state 1)))
              (rect_height (bounding (document demo_state 1)))
            = \<lparr>result_x = 0, result_y = 100,
                result_guides =
                  [\<lparr>guide_type = Vertical, line = 0, from_px = 0, to_px = 600, isCenter = False\<rparr>,
                   \<lparr>guide_type = Horizontal, line = 100, from_px = 0, to_px = 400,
                     isCenter = False\<rparr>],
                result_snappedX = Some True, result_snappedY = Some True\<rparr>)"
proof -
  have en: "isEnabled demo_state" "canvas demo_state = Some 0"
    by (simp_all add: demo_state_def)
  have run: "fst (calculateSnap demo_state 1 3 95) =
       \<lparr>result_x = 0, result_y = 100,
        result_guides =
          [\<lparr>guide_type = Vertical, line = 0, from_px = 0, to_px = 600, isCenter = False\<rparr>,
           \<lparr>guide_type = Horizontal, line = 100, from_px = 0, to_px = 400, isCenter = False\<rparr>],
        result_snappedX = Some True, result_snappedY = Some True\<rparr>"
    using demo_edge_snaps demo_state_CONFIG by simp
  from calculateSnap_follows_precedence[OF en, of 1 3 95] run en show ?thesis
    by auto
qed

text \<open>
  C1 as stated fails in five ways, one per conjunct group. Dragged to (250, 300), the
  100 by 50 element centers on sibling 2 (centerX 300); the guide runs from 0 to 600,
  the height of the canvas, while the union of the two boxes runs from 100 to 350.
  On the second canvas, dragged to (350, 300), the element snaps center to center on
  the canvas (guide at 400) although the left edge of sibling 2 at 352 is a same-edge
  match 2 pixels away: the precedence is applied within a target, not across targets.
  Dragged to (203, 95), the element snaps left to left and top to top on sibling 2 and
  ends at (200, 100); the vertical guide starts at 95, the candidate top, not at 100.
  With \<open>snapToCenter\<close> off the position (250, 300) does not snap, and with smart guides
  disabled nothing is evaluated at all.
\<close>

theorem center_guide_spans_canvas_not_union:
  "result_guides (fst (calculateSnap demo_state 1 250 300)) =
     [\<lparr>guide_type = Vertical, line = 300, from_px = 0, to_px = 600, isCenter = True\<rparr>]
   \<and> p_centerX (snapTargets (snd (calculateSnap demo_state 1 250 300)) ! 1) = 300
   \<and> min 300 (p_top (snapTargets (snd (calculateSnap demo_state 1 250 300)) ! 1)) = 100
   \<and> max (300 + rect_height (bounding (document demo_state 1)))
        (p_bottom (snapTargets (snd (calculateSnap demo_state 1 250 300)) ! 1)) = 350
   \<and> fst (calculateSnap overlap_state 1 350 300) =
       \<lparr>result_x = 350, result_y = 300,
        result_guides =
          [\<lparr>guide_type = Vertical, line = 400, from_px = 0, to_px = 600, isCenter = True\<rparr>],
        result_snappedX = Some True, result_snappedY = Some False\<rparr>
   \<and> p_left (getElementSnapPoints overlap_state 0 2) = 352
   \<and> matches_selector (document overlap_state 2)
   \<and> \<not> offsetParent_null (document overlap_state 2)
   \<and> \<bar>350 - p_left (getElementSnapPoints overlap_state 0 2)\<bar> \<le> snapThreshold (CONFIG overlap_state)
   \<and> fst (calculateSnap demo_state 1 203 95) =
       \<lparr>result_x = 200, result_y = 100,
        result_guides =
          [\<lparr>guide_type = Vertical, line = 200, from_px = 95, to_px = 200, isCenter = False\<rparr>,
           \<lparr>guide_type = Horizontal, line = 100, from_px = 200, to_px = 400, isCenter = False\<rparr>],
        result_snappedX = Some True, result_snappedY = Some True\<rparr>
   \<and> fst (calculateSnap (demo_state\<lparr>CONFIG := default_CONFIG\<lparr>snapToCenter := False\<rparr>\<rparr>) 1 250 300) =
       \<lparr>result_x = 250, result_y = 300, result_guides = [],
        result_snappedX = Some False, result_snappedY = Some False\<rparr>
   \<and> fst (calculateSnap (demo_state\<lparr>isEnabled := False\<rparr>) 1 3 95) =
       \<lparr>result_x = 3, result_y = 95, result_guides = [],
        result_snappedX = None, result_snappedY = None\<rparr>"
proof -
  have g: "result_guides (fst (calculateSnap demo_state 1 250 300)) =
     [\<lparr>guide_type = Vertical, line = 300, from_px = 0, to_px = 600, isCenter = True\<rparr>]"
    using demo_center_snap demo_state_CONFIG by simp
  have st: "snd (calculateSnap demo_state 1 250 300) = demo_state\<lparr>activeElement := Some 1\<rparr>"
    by (simp add: calculateSnap_state demo_state_def)
  have ts: "snapTargets (demo_state\<lparr>activeElement := Some 1\<rparr>) ! 1 =
         snap_points.extend \<lparr>p_left = 200, p_top = 100, p_right = 400, p_bottom = 200,
            p_centerX = 300, p_centerY = 150, p_width = 200, p_height = 100\<rparr>
            (target.fields (ElementTarget 2))"
    using demo_targets[of default_CONFIG] by (simp add: demo_state_def default_CONFIG_def)
  have h: "rect_height (bounding (document demo_state 1)) = 50"
    by (simp add: demo_state_def demo_document_def)
  have d: "fst (calculateSnap (demo_state\<lparr>isEnabled := False\<rparr>) 1 3 95) =
       \<lparr>result_x = 3, result_y = 95, result_guides = [],
        result_snappedX = None, result_snappedY = None\<rparr>"
    by (simp add: calculateSnap_disabled)
  have b: "fst (calculateSnap demo_state 1 203 95) =
       \<lparr>result_x = 200, result_y = 100,
        result_guides =
          [\<lparr>guide_type = Vertical, line = 200, from_px = 95, to_px = 200, isCenter = False\<rparr>,
           \<lparr>guide_type = Horizontal, line = 100, from_px = 200, to_px = 400, isCenter = False\<rparr>],
        result_snappedX = Some True, result_snappedY = Some True\<rparr>"
    using demo_both_snap demo_state_CONFIG by simp
  have near: "\<bar>350 - p_left (getElementSnapPoints overlap_state 0 2)\<bar>
              \<le> snapThreshold (CONFIG overlap_state)"
    unfolding overlap_sibling_left by simp
  show ?thesis
    unfolding st ts h
    using g demo_no_center_snap d b overlap_center_first overlap_sibling_left(1,2,3) near
    by (simp add: snap_points.defs target.defs)
qed

text \<open>
  C2 (as amended). One pass per axis, hence at most one vertical and one horizontal
  guide. The returned X coordinate and \<open>snappedX\<close> flag do not depend on the candidate
  Y; the returned Y coordinate and \<open>snappedY\<close> flag, and the line and kind of the
  horizontal guide, do not depend on the candidate X, so neither on whether or where
  the X axis snapped: the Y tests use the candidate Y alone, and an X snap changes
  only the extent of the horizontal guide.
\<close>

theorem axes_decided_independently:
  "result_x (fst (calculateSnap s e x y)) = result_x (fst (calculateSnap s e x y'))
   \<and> result_snappedX (fst (calculateSnap s e x y)) = result_snappedX (fst (calculateSnap s e x y'))
   \<and> result_y (fst (calculateSnap s e x y)) = result_y (fst (calculateSnap s e x' y))
   \<and> result_snappedY (fst (calculateSnap s e x y)) = result_snappedY (fst (calculateSnap s e x' y))
   \<and> map (\<lambda>g. (line g, isCenter g))
        (filter (\<lambda>g. guide_type g = Horizontal) (result_guides (fst (calculateSnap s e x y))))
     = map (\<lambda>g. (line g, isCenter g))
        (filter (\<lambda>g. guide_type g = Horizontal) (result_guides (fst (calculateSnap s e x' y))))
   \<and> length (filter (\<lambda>g. guide_type g = Vertical) (result_guides (fst (calculateSnap s e x y)))) \<le> 1
   \<and> length (filter (\<lambda>g. guide_type g = Horizontal) (result_guides (fst (calculateSnap s e x y)))) \<le> 1"
proof (cases "\<not> isEnabled s \<or> canvas s = None")
  case True
  then show ?thesis by (simp add: calculateSnap_disabled)
next
  case False
  then obtain c where en: "isEnabled s" "canvas s = Some c" by auto
  note run = calculateSnap_enabled[OF en]
  have 1: "result_x (fst (calculateSnap s e x y)) = result_x (fst (calculateSnap s e x y'))"
    unfolding run by (simp only: spec_snap_x)
  have 2: "result_snappedX (fst (calculateSnap s e x y))
           = result_snappedX (fst (calculateSnap s e x y'))"
    unfolding run by (simp only: spec_snap_snappedX)
  have 3: "result_y (fst (calculateSnap s e x y)) = result_y (fst (calculateSnap s e x' y))"
    unfolding run by (simp only: spec_snap_y)
  have 4: "result_snappedY (fst (calculateSnap s e x y))
           = result_snappedY (fst (calculateSnap s e x' y))"
    unfolding run by (simp only: spec_snap_snappedY)
  have 5: "map (\<lambda>g. (line g, isCenter g))
        (filter (\<lambda>g. guide_type g = Horizontal) (result_guides (fst (calculateSnap s e x y))))
     = map (\<lambda>g. (line g, isCenter g))
        (filter (\<lambda>g. guide_type g = Horizontal) (result_guides (fst (calculateSnap s e x' y))))"
    unfolding run by (simp only: spec_snap_horizontal_guides)
  have 6: "length (filter (\<lambda>g. guide_type g = Vertical)
             (result_guides (fst (calculateSnap s e x y)))) \<le> 1"
    unfolding run by (simp only: spec_snap_vertical_guides length_case_le_1)
  have "length (map (\<lambda>g. (line g, isCenter g)) (filter (\<lambda>g. guide_type g = Horizontal)
             (result_guides (fst (calculateSnap s e x y))))) \<le> 1"
    unfolding run by (simp only: spec_snap_horizontal_guides length_case_le_1)
  then have 7: "length (filter (\<lambda>g. guide_type g = Horizontal)
             (result_guides (fst (calculateSnap s e x y)))) \<le> 1"
    by simp
  from 1 2 3 4 5 6 7 show ?thesis by blast
qed

theorem axes_decided_independently_witness:
  "result_x (fst (calculateSnap demo_state 1 3 95)) = result_x (fst (calculateSnap demo_state 1 3 300))
   \<and> result_snappedX (fst (calculateSnap demo_state 1 3 95))
     = result_snappedX (fst (calculateSnap demo_state 1 3 300))
   \<and> result_y (fst (calculateSnap demo_state 1 3 95)) = result_y (fst (calculateSnap demo_state 1 120 95))
   \<and> result_snappedY (fst (calculateSnap demo_state 1 3 95))
     = result_snappedY (fst (calculateSnap demo_state 1 120 95))
   \<and> map (\<lambda>g. (line g, isCenter g))
        (filter (\<lambda>g. guide_type g = Horizontal) (result_guides (fst (calculateSnap demo_state 1 3 95))))
     = map (\<lambda>g. (line g, isCenter g))
        (filter (\<lambda>g. guide_type g = Horizontal) (result_guides (fst (calculateSnap demo_state 1 120 95))))
   \<and> length (filter (\<lambda>g. guide_type g = Vertical) (result_guides (fst (calculateSnap demo_state 1 3 95)))) \<le> 1
   \<and> length (filter (\<lambda>g. guide_type g = Horizontal) (result_guides (fst (calculateSnap demo_state 1 3 95)))) \<le> 1"
  by (rule axes_decided_independently)

text \<open>
  C2 as stated fails: at candidate Y 95 the X axis snaps for candidate X 3 and does not
  for candidate X 120, and the Y axis gives the same result (top edge on sibling 2 at
  100) in both runs; no input makes the Y result depend on the candidate X.
\<close>

theorem x_snap_does_not_change_y_tests:
  "result_x (fst (calculateSnap demo_state 1 3 95)) = 0
   \<and> result_snappedX (fst (calculateSnap demo_state 1 3 95)) = Some True
   \<and> result_x (fst (calculateSnap demo_state 1 120 95)) = 120
   \<and> result_snappedX (fst (calculateSnap demo_state 1 120 95)) = Some False
   \<and> result_y (fst (calculateSnap demo_state 1 3 95)) = 100
   \<and> result_y (fst (calculateSnap demo_state 1 120 95)) = 100
   \<and> result_snappedY (fst (calculateSnap demo_state 1 3 95)) = Some True
   \<and> result_snappedY (fst (calculateSnap demo_state 1 120 95)) = Some True
   \<and> \<not> (\<exists>s e x x' y.
          (result_y (fst (calculateSnap s e x y)), result_snappedY (fst (calculateSnap s e x y)))
          \<noteq> (result_y (fst (calculateSnap s e x' y)),
               result_snappedY (fst (calculateSnap s e x' y))))"
proof -
  have a: "fst (calculateSnap demo_state 1 3 95) =
   \<lparr>result_x = 0, result_y = 100,
    result_guides =
      [\<lparr>guide_type = Vertical, line = 0, from_px = 0, to_px = 600, isCenter = False\<rparr>,
       \<lparr>guide_type = Horizontal, line = 100, from_px = 0, to_px = 400, isCenter = False\<rparr>],
    result_snappedX = Some True, result_snappedY = Some True\<rparr>"
    using demo_edge_snaps demo_state_CONFIG by simp
  have b: "fst (calculateSnap demo_state 1 120 95) =
   \<lparr>result_x = 120, result_y = 100,
    result_guides =
      [\<lparr>guide_type = Horizontal, line = 100, from_px = 120, to_px = 400, isCenter = False\<rparr>],
    result_snappedX = Some False, result_snappedY = Some True\<rparr>"
    using demo_y_snap_only demo_state_CONFIG by simp
  have c: "\<not> (\<exists>s e x x' y.
          (result_y (fst (calculateSnap s e x y)), result_snappedY (fst (calculateSnap s e x y)))
          \<noteq> (result_y (fst (calculateSnap s e x' y)),
               result_snappedY (fst (calculateSnap s e x' y))))"
    using calculateSnap_y_independent by simp
  show ?thesis unfolding a b using c by simp
qed

text \<open>
  C3 (as amended). \<open>calculateSnap\<close> is repeatable: a second call with the same
  arguments returns the same object and leaves the state as the first call left it, and
  the returned object does not depend on the previous value of \<open>activeElement\<close>. The
  call reads the document and the configuration without changing them; the only module
  variable it writes is \<open>activeElement\<close>, which it sets to the dragged element when
  smart guides are enabled and a canvas is initialised.
\<close>

theorem calculateSnap_repeatable:
  "fst (calculateSnap (snd (calculateSnap s e x y)) e x y) = fst (calculateSnap s e x y)
   \<and> snd (calculateSnap (snd (calculateSnap s e x y)) e x y) = snd (calculateSnap s e x y)
   \<and> fst (calculateSnap (s\<lparr>activeElement := a\<rparr>) e x y) = fst (calculateSnap s e x y)
   \<and> snd (calculateSnap s e x y) =
       (if \<not> isEnabled s \<or> canvas s = None then s else s\<lparr>activeElement := Some e\<rparr>)
   \<and> document (snd (calculateSnap s e x y)) = document s
   \<and> CONFIG (snd (calculateSnap s e x y)) = CONFIG s"
proof (cases "\<not> isEnabled s \<or> canvas s = None")
  case True
  then have "\<not> isEnabled (s\<lparr>activeElement := a\<rparr>) \<or> canvas (s\<lparr>activeElement := a\<rparr>) = None"
    by simp
  with True show ?thesis by (simp add: calculateSnap_disabled)
next
  case False
  then obtain c where en: "isEnabled s" "canvas s = Some c" by auto
  have en1: "isEnabled (s\<lparr>activeElement := Some e\<rparr>)" "canvas (s\<lparr>activeElement := Some e\<rparr>) = Some c"
    using en by simp_all
  have en2: "isEnabled (s\<lparr>activeElement := a\<rparr>)" "canvas (s\<lparr>activeElement := a\<rparr>) = Some c"
    using en by simp_all
  have st: "snd (calculateSnap s e x y) = s\<lparr>activeElement := Some e\<rparr>"
    using en by (simp add: calculateSnap_state)
  have st1: "snd (calculateSnap (s\<lparr>activeElement := Some e\<rparr>) e x y) = s\<lparr>activeElement := Some e\<rparr>"
    using en by (simp add: calculateSnap_state)
  show ?thesis
    unfolding st st1 calculateSnap_enabled[OF en] calculateSnap_enabled[OF en1]
      calculateSnap_enabled[OF en2]
    using en by (simp add: getCanvasSnapPoints_activeElement)
qed

theorem calculateSnap_repeatable_witness:
  "fst (calculateSnap (snd (calculateSnap demo_state 1 3 95)) 1 3 95) = fst (calculateSnap demo_state 1 3 95)
   \<and> snd (calculateSnap (snd (calculateSnap demo_state 1 3 95)) 1 3 95) = snd (calculateSnap demo_state 1 3 95)
   \<and> fst (calculateSnap (demo_state\<lparr>activeElement := Some 2\<rparr>) 1 3 95) = fst (calculateSnap demo_state 1 3 95)
   \<and> snd (calculateSnap demo_state 1 3 95) =
       (if \<not> isEnabled demo_state \<or> canvas demo_state = None then demo_state
        else demo_state\<lparr>activeElement := Some 1\<rparr>)
   \<and> document (snd (calculateSnap demo_state 1 3 95)) = document demo_state
   \<and> CONFIG (snd (calculateSnap demo_state 1 3 95)) = CONFIG demo_state"
  by (rule calculateSnap_repeatable)

text \<open>
  C3 as stated fails: the call writes the module variable \<open>activeElement\<close>.
\<close>

theorem calculateSnap_sets_activeElement:
  "activeElement demo_state = None
   \<and> activeElement (snd (calculateSnap demo_state 1 3 95)) = Some 1
   \<and> snd (calculateSnap demo_state 1 3 95) \<noteq> demo_state"
proof -
  have st: "snd (calculateSnap demo_state 1 3 95) = demo_state\<lparr>activeElement := Some 1\<rparr>"
    by (simp add: calculateSnap_state demo_state_def)
  have n: "activeElement demo_state = None"
    by (simp add: demo_state_def)
  have "demo_state\<lparr>activeElement := Some 1\<rparr> \<noteq> demo_state"
  proof
    assume "demo_state\<lparr>activeElement := Some 1\<rparr> = demo_state"
    then have "activeElement (demo_state\<lparr>activeElement := Some 1\<rparr>) = activeElement demo_state"
      by (rule arg_cong)
    with n show False by simp
  qed
  with n show ?thesis unfolding st by simp
qed

text \<open>
  C4 (as amended). When smart guides are enabled, a canvas is initialised and
  \<open>CONFIG.snapToGrid\<close> is set with a non-zero grid size, an axis that did not snap is
  returned as a multiple of \<open>CONFIG.gridSize\<close> nearest to the candidate coordinate, and
  an axis that did snap is returned with the value it has without grid snapping.
\<close>

theorem grid_rounding_of_unsnapped_axis:
  assumes "isEnabled s" and "canvas s = Some c"
    and "snapToGrid (CONFIG s)" and "gridSize (CONFIG s) \<noteq> 0"
  shows "(result_snappedX (fst (calculateSnap s e x y)) = Some False \<longrightarrow>
            (\<exists>k::int. result_x (fst (calculateSnap s e x y)) = of_int k * gridSize (CONFIG s))
            \<and> (\<forall>m::int. \<bar>result_x (fst (calculateSnap s e x y)) - x\<bar>
                          \<le> \<bar>of_int m * gridSize (CONFIG s) - x\<bar>))
       \<and> (result_snappedY (fst (calculateSnap s e x y)) = Some False \<longrightarrow>
            (\<exists>k::int. result_y (fst (calculateSnap s e x y)) = of_int k * gridSize (CONFIG s))
            \<and> (\<forall>m::int. \<bar>result_y (fst (calculateSnap s e x y)) - y\<bar>
                          \<le> \<bar>of_int m * gridSize (CONFIG s) - y\<bar>))
       \<and> (result_snappedX (fst (calculateSnap s e x y)) = Some True \<longrightarrow>
            result_x (fst (calculateSnap s e x y)) =
            result_x (fst (calculateSnap (s\<lparr>CONFIG := (CONFIG s)\<lparr>snapToGrid := False\<rparr>\<rparr>) e x y)))
       \<and> (result_snappedY (fst (calculateSnap s e x y)) = Some True \<longrightarrow>
            result_y (fst (calculateSnap s e x y)) =
            result_y (fst (calculateSnap (s\<lparr>CONFIG := (CONFIG s)\<lparr>snapToGrid := False\<rparr>\<rparr>) e x y)))"
proof -
  let ?s' = "s\<lparr>CONFIG := (CONFIG s)\<lparr>snapToGrid := False\<rparr>\<rparr>"
  have en': "isEnabled ?s'" "canvas ?s' = Some c"
    using assms by simp_all
  have ts': "snapTargets (?s'\<lparr>activeElement := Some e\<rparr>) = snapTargets (s\<lparr>activeElement := Some e\<rparr>)"
    using snapTargets_snapToGrid[where s=s and b=False and a="Some e"] by simp
  note run = calculateSnap_enabled[OF assms(1,2), of e x y]
  note run' = calculateSnap_enabled[OF en', of e x y]
  have gx: "result_snappedX (fst (calculateSnap s e x y)) = Some False \<longrightarrow>
            (\<exists>k::int. result_x (fst (calculateSnap s e x y)) = of_int k * gridSize (CONFIG s))
            \<and> (\<forall>m::int. \<bar>result_x (fst (calculateSnap s e x y)) - x\<bar>
                          \<le> \<bar>of_int m * gridSize (CONFIG s) - x\<bar>)"
    unfolding run spec_snap_x spec_snap_snappedX
    using assms(3,4) Math_round_multiple Math_round_nearest
    by (auto split: option.splits)
  have gy: "result_snappedY (fst (calculateSnap s e x y)) = Some False \<longrightarrow>
            (\<exists>k::int. result_y (fst (calculateSnap s e x y)) = of_int k * gridSize (CONFIG s))
            \<and> (\<forall>m::int. \<bar>result_y (fst (calculateSnap s e x y)) - y\<bar>
                          \<le> \<bar>of_int m * gridSize (CONFIG s) - y\<bar>)"
    unfolding run spec_snap_y spec_snap_snappedY
    using assms(3,4) Math_round_multiple Math_round_nearest
    by (auto split: option.splits)
  have sx: "result_snappedX (fst (calculateSnap s e x y)) = Some True \<longrightarrow>
            result_x (fst (calculateSnap s e x y)) = result_x (fst (calculateSnap ?s' e x y))"
    unfolding run run' ts' spec_snap_x spec_snap_snappedX
    by (auto simp: first_alignment_snapToGrid getCanvasSnapPoints_CONFIG split: option.splits)
  have sy: "result_snappedY (fst (calculateSnap s e x y)) = Some True \<longrightarrow>
            result_y (fst (calculateSnap s e x y)) = result_y (fst (calculateSnap ?s' e x y))"
    unfolding run run' ts' spec_snap_y spec_snap_snappedY
    by (auto simp: first_alignment_snapToGrid getCanvasSnapPoints_CONFIG split: option.splits)
  from gx gy sx sy show ?thesis by blast
qed

theorem grid_rounding_of_unsnapped_axis_witness:
  "isEnabled (demo_state\<lparr>CONFIG := default_CONFIG\<lparr>snapToGrid := True\<rparr>\<rparr>)
   \<and> canvas (demo_state\<lparr>CONFIG := default_CONFIG\<lparr>snapToGrid := True\<rparr>\<rparr>) = Some 0
   \<and> snapToGrid (CONFIG (demo_state\<lparr>CONFIG := default_CONFIG\<lparr>snapToGrid := True\<rparr>\<rparr>))
   \<and> gridSize (CONFIG (demo_state\<lparr>CONFIG := default_CONFIG\<lparr>snapToGrid := True\<rparr>\<rparr>)) = 10
   \<and> result_snappedX (fst (calculateSnap
        (demo_state\<lparr>CONFIG := default_CONFIG\<lparr>snapToGrid := True\<rparr>\<rparr>) 1 123 303)) = Some False
   \<and> result_x (fst (calculateSnap
        (demo_state\<lparr>CONFIG := default_CONFIG\<lparr>snapToGrid := True\<rparr>\<rparr>) 1 123 303)) = 120
   \<and> (\<forall>m::int. \<bar>120 - 123\<bar> \<le> \<bar>of_int m * 10 - (123::real)\<bar>)
   \<and> result_snappedY (fst (calculateSnap
        (demo_state\<lparr>CONFIG := default_CONFIG\<lparr>snapToGrid := True\<rparr>\<rparr>) 1 123 303)) = Some False
   \<and> result_y (fst (calculateSnap
        (demo_state\<lparr>CONFIG := default_CONFIG\<lparr>snapToGrid := True\<rparr>\<rparr>) 1 123 303)) = 300
   \<and> (\<forall>m::int. \<bar>300 - 303\<bar> \<le> \<bar>of_int m * 10 - (303::real)\<bar>)"
proof -
  let ?s = "demo_state\<lparr>CONFIG := default_CONFIG\<lparr>snapToGrid := True\<rparr>\<rparr>"
  have g: "snapToGrid (CONFIG ?s)" "gridSize (CONFIG ?s) \<noteq> 0" "gridSize (CONFIG ?s) = 10"
    by (simp_all add: default_CONFIG_def)
  note t = grid_rounding_of_unsnapped_axis[OF demo_enabled g(1,2), of 1 123 303]
  have r: "fst (calculateSnap ?s 1 123 303) =
     \<lparr>result_x = 120, result_y = 300, result_guides = [],
      result_snappedX = Some False, result_snappedY = Some False\<rparr>"
    by (rule demo_grid)
  from t have "\<forall>m::int. \<bar>result_x (fst (calculateSnap ?s 1 123 303)) - 123\<bar>
                  \<le> \<bar>of_int m * gridSize (CONFIG ?s) - 123\<bar>"
    unfolding r by simp
  then have x: "\<forall>m::int. \<bar>120 - 123\<bar> \<le> \<bar>of_int m * 10 - (123::real)\<bar>"
    unfolding r g(3) by simp
  from t have "\<forall>m::int. \<bar>result_y (fst (calculateSnap ?s 1 123 303)) - 303\<bar>
                  \<le> \<bar>of_int m * gridSize (CONFIG ?s) - 303\<bar>"
    unfolding r by simp
  then have y: "\<forall>m::int. \<bar>300 - 303\<bar> \<le> \<bar>of_int m * 10 - (303::real)\<bar>"
    unfolding r g(3) by simp
  show ?thesis
    unfolding r using x y demo_enabled g by simp
qed

text \<open>
  C4 as stated fails: with smart guides disabled the early return hands back the
  candidate position (123, 303) although \<open>snapToGrid\<close> is set with grid size 10; enabled,
  the same call returns (120, 300).
\<close>

theorem grid_not_applied_when_disabled:
  "snapToGrid (CONFIG (demo_state\<lparr>CONFIG := default_CONFIG\<lparr>snapToGrid := True\<rparr>, isEnabled := False\<rparr>))
   \<and> gridSize (CONFIG (demo_state\<lparr>CONFIG := default_CONFIG\<lparr>snapToGrid := True\<rparr>, isEnabled := False\<rparr>)) = 10
   \<and> canvas (demo_state\<lparr>CONFIG := default_CONFIG\<lparr>snapToGrid := True\<rparr>, isEnabled := False\<rparr>) = Some 0
   \<and> fst (calculateSnap
        (demo_state\<lparr>CONFIG := default_CONFIG\<lparr>snapToGrid := True\<rparr>, isEnabled := False\<rparr>) 1 123 303) =
       \<lparr>result_x = 123, result_y = 303, result_guides = [],
        result_snappedX = None, result_snappedY = None\<rparr>
   \<and> Math_round (123 / 10) * 10 = 120
   \<and> fst (calculateSnap (demo_state\<lparr>CONFIG := default_CONFIG\<lparr>snapToGrid := True\<rparr>\<rparr>) 1 123 303) =
       \<lparr>result_x = 120, result_y = 300, result_guides = [],
        result_snappedX = Some False, result_snappedY = Some False\<rparr>"
  using demo_grid demo_disabled[of "default_CONFIG\<lparr>snapToGrid := True\<rparr>" 123 303]
  by (simp add: Math_round_12_3 default_CONFIG_def demo_state_def)

text \<open>
  C5 (as amended). When smart guides are enabled and a canvas is initialised, the
  target list of the call is the canvas box (left 0, top 0, right and bottom its width
  and height, center in the middle) followed, when \<open>CONFIG.snapToElements\<close> is set, by
  every descendant of the canvas that matches the element selector, is not the dragged
  element and has an \<open>offsetParent\<close>; every target of the list can make an axis snap.
\<close>

theorem canvas_and_siblings_are_targets:
  assumes "isEnabled s" and "canvas s = Some c"
  shows "snapTargets (snd (calculateSnap s e x y)) =
           snap_points.extend
             \<lparr>p_left = 0, p_top = 0,
              p_right = rect_width (bounding (document s c)),
              p_bottom = rect_height (bounding (document s c)),
              p_centerX = rect_width (bounding (document s c)) / 2,
              p_centerY = rect_height (bounding (document s c)) / 2,
              p_width = rect_width (bounding (document s c)),
              p_height = rect_height (bounding (document s c))\<rparr>
             (target.fields CanvasTarget)
           # (if snapToElements (CONFIG s)
              then map (\<lambda>el. snap_points.extend (getElementSnapPoints s c el)
                                (target.fields (ElementTarget el)))
                     (filter (\<lambda>el. matches_selector (document s el) \<and> el \<noteq> e
                                    \<and> \<not> offsetParent_null (document s el))
                        (descendants (document s c)))
              else [])
         \<and> (\<forall>t \<in> set (snapTargets (snd (calculateSnap s e x y))).
               first_alignment (CONFIG s) x (rect_width (bounding (document s e))) (x_edges t) \<noteq> None
               \<longrightarrow> result_snappedX (fst (calculateSnap s e x y)) = Some True)
         \<and> (\<forall>t \<in> set (snapTargets (snd (calculateSnap s e x y))).
               first_alignment (CONFIG s) y (rect_height (bounding (document s e))) (y_edges t) \<noteq> None
               \<longrightarrow> result_snappedY (fst (calculateSnap s e x y)) = Some True)"
proof -
  have st: "snd (calculateSnap s e x y) = s\<lparr>activeElement := Some e\<rparr>"
    using assms by (simp add: calculateSnap_state)
  have ts: "snapTargets (s\<lparr>activeElement := Some e\<rparr>) =
           snap_points.extend
             \<lparr>p_left = 0, p_top = 0,
              p_right = rect_width (bounding (document s c)),
              p_bottom = rect_height (bounding (document s c)),
              p_centerX = rect_width (bounding (document s c)) / 2,
              p_centerY = rect_height (bounding (document s c)) / 2,
              p_width = rect_width (bounding (document s c)),
              p_height = rect_height (bounding (document s c))\<rparr>
             (target.fields CanvasTarget)
           # (if snapToElements (CONFIG s)
              then map (\<lambda>el. snap_points.extend (getElementSnapPoints s c el)
                                (target.fields (ElementTarget el)))
                     (filter (\<lambda>el. matches_selector (document s el) \<and> el \<noteq> e
                                    \<and> \<not> offsetParent_null (document s el))
                        (descendants (document s c)))
              else [])"
    using assms(2)
    by (auto simp: snapTargets_def getCanvasSnapPoints_def getSnappableElements_def
        getElementSnapPoints_def Let_def intro: filter_cong)
  have bx: "\<forall>t \<in> set (snapTargets (s\<lparr>activeElement := Some e\<rparr>)).
               first_alignment (CONFIG s) x (rect_width (bounding (document s e))) (x_edges t) \<noteq> None
               \<longrightarrow> result_snappedX (fst (calculateSnap s e x y)) = Some True"
    unfolding calculateSnap_enabled[OF assms] spec_snap_snappedX
    by (simp add: first_snap_None_iff)
  have by': "\<forall>t \<in> set (snapTargets (s\<lparr>activeElement := Some e\<rparr>)).
               first_alignment (CONFIG s) y (rect_height (bounding (document s e))) (y_edges t) \<noteq> None
               \<longrightarrow> result_snappedY (fst (calculateSnap s e x y)) = Some True"
    unfolding calculateSnap_enabled[OF assms] spec_snap_snappedY
    by (simp add: first_snap_None_iff)
  show ?thesis
    unfolding st using ts bx by' by blast
qed

theorem canvas_and_siblings_are_targets_witness:
  "isEnabled demo_state \<and> canvas demo_state = Some 0
   \<and> snapTargets (snd (calculateSnap demo_state 1 3 95)) =
       [snap_points.extend \<lparr>p_left = 0, p_top = 0, p_right = 800, p_bottom = 600, p_centerX = 400,
            p_centerY = 300, p_width = 800, p_height = 600\<rparr> (target.fields CanvasTarget),
        snap_points.extend \<lparr>p_left = 200, p_top = 100, p_right = 400, p_bottom = 200,
            p_centerX = 300, p_centerY = 150, p_width = 200, p_height = 100\<rparr>
            (target.fields (ElementTarget 2))]
   \<and> result_snappedX (fst (calculateSnap demo_state 1 3 95)) = Some True
   \<and> result_snappedY (fst (calculateSnap demo_state 1 3 95)) = Some True"
proof -
  have en: "isEnabled demo_state" "canvas demo_state = Some 0"
    by (simp_all add: demo_state_def)
  note t = canvas_and_siblings_are_targets[OF en, of 1 3 95]
  have ts: "snapTargets (snd (calculateSnap demo_state 1 3 95)) =
       [snap_points.extend \<lparr>p_left = 0, p_top = 0, p_right = 800, p_bottom = 600, p_centerX = 400,
            p_centerY = 300, p_width = 800, p_height = 600\<rparr> (target.fields CanvasTarget),
        snap_points.extend \<lparr>p_left = 200, p_top = 100, p_right = 400, p_bottom = 200,
            p_centerX = 300, p_centerY = 150, p_width = 200, p_height = 100\<rparr>
            (target.fields (ElementTarget 2))]"
    using t
    by (simp add: demo_state_def demo_document_def default_CONFIG_def getElementSnapPoints_def
        Let_def)
  have fx: "first_alignment (CONFIG demo_state) 3 (rect_width (bounding (document demo_state 1)))
       (x_edges (snap_points.extend \<lparr>p_left = 0, p_top = 0, p_right = 800, p_bottom = 600,
          p_centerX = 400, p_centerY = 300, p_width = 800, p_height = 600\<rparr>
          (target.fields CanvasTarget))) \<noteq> None"
    by (simp add: x_edges_def first_alignment_cases snap_points.defs target.defs demo_state_def
        default_CONFIG_def)
  have fy: "first_alignment (CONFIG demo_state) 95 (rect_height (bounding (document demo_state 1)))
       (y_edges (snap_points.extend \<lparr>p_left = 200, p_top = 100, p_right = 400, p_bottom = 200,
            p_centerX = 300, p_centerY = 150, p_width = 200, p_height = 100\<rparr>
            (target.fields (ElementTarget 2)))) \<noteq> None"
    by (simp add: y_edges_def first_alignment_cases snap_points.defs target.defs demo_state_def
        default_CONFIG_def)
  from t fx have sx: "result_snappedX (fst (calculateSnap demo_state 1 3 95)) = Some True"
    unfolding ts by simp
  from t fy have sy: "result_snappedY (fst (calculateSnap demo_state 1 3 95)) = Some True"
    unfolding ts by simp
  from en ts sx sy show ?thesis by simp
qed

text \<open>
  C5 as stated fails: with smart guides disabled and the canvas initialised a left edge
  3 pixels from the canvas edge is not snapped, and with \<open>snapToElements\<close> off the
  visible sibling 2 (left edge 200) is no target for a box dragged to 203.
\<close>

theorem targets_gated_by_enabled_and_snapToElements:
  "canvas (demo_state\<lparr>isEnabled := False\<rparr>) = Some 0
   \<and> fst (calculateSnap (demo_state\<lparr>isEnabled := False\<rparr>) 1 3 95) =
       \<lparr>result_x = 3, result_y = 95, result_guides = [],
        result_snappedX = None, result_snappedY = None\<rparr>
   \<and> canvas (demo_state\<lparr>CONFIG := default_CONFIG\<lparr>snapToElements := False\<rparr>\<rparr>) = Some 0
   \<and> isEnabled (demo_state\<lparr>CONFIG := default_CONFIG\<lparr>snapToElements := False\<rparr>\<rparr>)
   \<and> matches_selector (demo_document 2) \<and> \<not> offsetParent_null (demo_document 2)
   \<and> 2 \<in> set (descendants (demo_document 0))
   \<and> p_left (getElementSnapPoints demo_state 0 2) = 200
   \<and> fst (calculateSnap (demo_state\<lparr>CONFIG := default_CONFIG\<lparr>snapToElements := False\<rparr>\<rparr>) 1 203 300) =
       \<lparr>result_x = 203, result_y = 300, result_guides = [],
        result_snappedX = Some False, result_snappedY = Some False\<rparr>
   \<and> snapTargets (snd (calculateSnap
        (demo_state\<lparr>CONFIG := default_CONFIG\<lparr>snapToElements := False\<rparr>\<rparr>) 1 203 300)) =
       [snap_points.extend \<lparr>p_left = 0, p_top = 0, p_right = 800, p_bottom = 600, p_centerX = 400,
            p_centerY = 300, p_width = 800, p_height = 600\<rparr> (target.fields CanvasTarget)]"
proof -
  have d: "fst (calculateSnap (demo_state\<lparr>isEnabled := False\<rparr>) 1 3 95) =
       \<lparr>result_x = 3, result_y = 95, result_guides = [],
        result_snappedX = None, result_snappedY = None\<rparr>"
    by (simp add: calculateSnap_disabled)
  have st: "snd (calculateSnap (demo_state\<lparr>CONFIG := default_CONFIG\<lparr>snapToElements := False\<rparr>\<rparr>) 1 203 300)
            = demo_state\<lparr>activeElement := Some 1, CONFIG := default_CONFIG\<lparr>snapToElements := False\<rparr>\<rparr>"
    by (simp add: calculateSnap_state demo_state_def)
  have m: "matches_selector (demo_document 2)" "\<not> offsetParent_null (demo_document 2)"
      "2 \<in> set (descendants (demo_document 0))"
      "p_left (getElementSnapPoints demo_state 0 2) = 200"
    by (simp_all add: demo_document_def demo_state_def getElementSnapPoints_def Let_def)
  show ?thesis
    unfolding st demo_targets
    using d demo_no_element_snap m
    by (simp add: demo_state_def)
qed

section \<open>The export bundle\<close>

lemma is_image_simps:
  "is_image (p, JpegImage pg)" "is_image (p, PngImage pg)"
  "\<not> is_image (p, PdfBlob)" "\<not> is_image (p, Folder)"
  "\<not> is_image (p, HtmlPreview sec)" "\<not> is_image (p, ReadmeText)"
  by (simp_all add: is_image_def)

lemma filter_is_image_page_images: "filter is_image (page_images env i pg) = page_images env i pg"
  by (simp add: page_images_def is_image_simps)

lemma filter_is_image_image_loop: "filter is_image (image_loop env ps) = image_loop env ps"
  unfolding image_loop_def
  by (induction "[0..<min (length ps) 10]" arbitrary: ps)
     (simp_all add: filter_concat filter_is_image_page_images comp_def)

lemma set_image_loop:
  "set (image_loop env ps) = (\<Union>i\<in>{0..<min (length ps) 10}. set (page_images env i (ps ! i)))"
  by (simp add: image_loop_def)

lemma image_loop_entries:
  assumes "f \<in> set (image_loop env ps)"
  shows "\<exists>i<min (length ps) 10.
           f = (js ''images/page_'' @ js (decimal (i + 1)) @ js ''.jpg'', JpegImage (ps ! i))
           \<or> f = (js ''images/page_'' @ js (decimal (i + 1)) @ js ''.png'', PngImage (ps ! i))"
proof -
  from assms obtain i where i: "i < min (length ps) 10" "f \<in> set (page_images env i (ps ! i))"
    unfolding set_image_loop by auto
  from i(2) have
    "f = (js ''images/page_'' @ js (decimal (i + 1)) @ js ''.jpg'', JpegImage (ps ! i))
     \<or> f = (js ''images/page_'' @ js (decimal (i + 1)) @ js ''.png'', PngImage (ps ! i))"
    by (auto simp: page_images_def split: if_splits)
  with i(1) show ?thesis by blast
qed

lemma image_loop_all_render:
  assumes "\<forall>i<min (length ps) 10. renders env (ps ! i) JPEG \<and> renders env (ps ! i) PNG"
  shows "image_loop env ps =
           concat (map (\<lambda>i. [(js ''images/page_'' @ js (decimal (i + 1)) @ js ''.jpg'',
                                 JpegImage (ps ! i)),
                                (js ''images/page_'' @ js (decimal (i + 1)) @ js ''.png'',
                                 PngImage (ps ! i))])
                     [0..<min (length ps) 10])"
proof -
  have "map (\<lambda>i. page_images env i (ps ! i)) [0..<min (length ps) 10] =
        map (\<lambda>i. [(js ''images/page_'' @ js (decimal (i + 1)) @ js ''.jpg'', JpegImage (ps ! i)),
                    (js ''images/page_'' @ js (decimal (i + 1)) @ js ''.png'', PngImage (ps ! i))])
            [0..<min (length ps) 10]"
    using assms by (intro map_cong) (auto simp: page_images_def)
  then show ?thesis unfolding image_loop_def by (rule arg_cong)
qed

lemma image_loop_none_render:
  assumes "\<forall>i<min (length ps) 10. \<not> renders env (ps ! i) JPEG"
  shows "image_loop env ps = []"
proof -
  have "map (\<lambda>i. page_images env i (ps ! i)) [0..<min (length ps) 10] =
        map (\<lambda>i. []) [0..<min (length ps) 10]"
    using assms by (intro map_cong) (auto simp: page_images_def)
  then have "image_loop env ps = concat (map (\<lambda>i. []) [0..<min (length ps) 10])"
    unfolding image_loop_def by (rule arg_cong)
  then show ?thesis by simp
qed

lemma exportMultipleFormats_files:
  assumes "jszip_loads env" and "window_brochureData env = Some d" and "bd_pages d = Some ps"
  shows "exportMultipleFormats env =
           (Some ((if fetch_export env = HttpOk then [(js ''brochure.pdf'', PdfBlob)] else [])
                  @ (if length ps > 0 then (js ''images/'', Folder) # image_loop env ps else [])
                  @ [(js ''preview.html'',
                      HtmlPreview (extractContentSections (engine_toLowerCase env) (Some ps))),
                     (js ''README.txt'', ReadmeText)]),
            [POST (js ''/api/export/brochure'') d])"
  using assms
  by (simp add: exportMultipleFormats_def exportPDFBlob_def generateHTMLPreview_def or_obj_def
      Let_def)

lemma image_loop_Nil: "image_loop env [] = []"
  by (simp add: image_loop_def)

lemma exported_images:
  assumes "jszip_loads env" and "window_brochureData env = Some d" and "bd_pages d = Some ps"
    and "fst (exportMultipleFormats env) = Some files"
  shows "filter is_image files = image_loop env ps"
proof -
  from assms(4) have files: "files =
      (if fetch_export env = HttpOk then [(js ''brochure.pdf'', PdfBlob)] else [])
      @ (if length ps > 0 then (js ''images/'', Folder) # image_loop env ps else [])
      @ [(js ''preview.html'',
          HtmlPreview (extractContentSections (engine_toLowerCase env) (Some ps))),
         (js ''README.txt'', ReadmeText)]"
    unfolding exportMultipleFormats_files[OF assms(1-3)] by simp
  show ?thesis
  proof (cases "length ps > 0")
    case True
    then show ?thesis
      unfolding files by (simp add: is_image_simps filter_is_image_image_loop)
  next
    case False
    then show ?thesis
      unfolding files by (simp add: is_image_simps image_loop_Nil)
  qed
qed

lemma demo_export_facts:
  "jszip_loads (demo_export\<lparr>renders := r\<rparr>)"
  "window_brochureData (demo_export\<lparr>renders := r\<rparr>)
     = Some \<lparr>bd_pages = Some (replicate 10 plain_page @ [last_page])\<rparr>"
  by (simp_all add: demo_export_def)

lemma demo_pages_facts:
  "bd_pages \<lparr>bd_pages = Some (replicate 10 plain_page @ [last_page])\<rparr>
     = Some (replicate 10 plain_page @ [last_page])"
  "min (length (replicate 10 plain_page @ [last_page])) 10 = 10"
  by simp_all

lemma demo_export_self: "demo_export\<lparr>renders := (\<lambda>pg f. True)\<rparr> = demo_export"
  by (simp add: demo_export_def)

lemma in_concat_map: "i \<in> set xs \<Longrightarrow> e \<in> set (f i) \<Longrightarrow> e \<in> set (concat (map f xs))"
  by auto

lemma decimal_10: "decimal 10 = ''10''"
  by (simp add: decimal.simps)

lemma plain_neq_last: "plain_page \<noteq> last_page"
proof
  assume "plain_page = last_page"
  then have "content plain_page = content last_page" by (rule arg_cong)
  then show False by (simp add: plain_page_def last_page_def)
qed

lemma image_loop_exact:
  "image_loop env ps =
     concat (map (\<lambda>i. if renders env (ps ! i) JPEG
                        then (js ''images/page_'' @ js (decimal (i + 1)) @ js ''.jpg'',
                              JpegImage (ps ! i))
                             # (if renders env (ps ! i) PNG
                                then [(js ''images/page_'' @ js (decimal (i + 1)) @ js ''.png'',
                                       PngImage (ps ! i))]
                                else [])
                        else [])
               [0..<min (length ps) 10])"
  by (simp add: image_loop_def page_images_def)

lemma image_loop_only_jpeg:
  assumes "\<forall>i<min (length ps) 10. renders env (ps ! i) JPEG \<and> \<not> renders env (ps ! i) PNG"
  shows "image_loop env ps =
           concat (map (\<lambda>i. [(js ''images/page_'' @ js (decimal (i + 1)) @ js ''.jpg'',
                                 JpegImage (ps ! i))])
                     [0..<min (length ps) 10])"
proof -
  have "map (\<lambda>i. page_images env i (ps ! i)) [0..<min (length ps) 10] =
        map (\<lambda>i. [(js ''images/page_'' @ js (decimal (i + 1)) @ js ''.jpg'', JpegImage (ps ! i))])
            [0..<min (length ps) 10]"
    using assms by (intro map_cong) (auto simp: page_images_def)
  then show ?thesis unfolding image_loop_def by (rule arg_cong)
qed

text \<open>
  C8 (as amended). When JSZip loads and the brochure has a page list of \<open>n\<close> pages,
  the image files of the archive are, for \<open>i\<close> from 1 to \<open>min n 10\<close> in order:
  \<open>page_i.jpg\<close> and \<open>page_i.png\<close> when both images of page \<open>i\<close> are generated, only
  \<open>page_i.jpg\<close> when its PNG fails, and no file when its JPEG fails (the PNG is then not
  attempted). So every image file belongs to one of the first ten pages, and when the
  rasteriser succeeds for those pages the image files are exactly \<open>page_i.jpg\<close> and
  \<open>page_i.png\<close> for \<open>i = 1 .. min n 10\<close>. The PDF request carries the whole
  \<open>brochureData\<close> and the HTML preview is built from the whole page list.
\<close>

theorem export_images_first_ten_pages:
  assumes "jszip_loads env" and "window_brochureData env = Some d" and "bd_pages d = Some ps"
  shows "\<exists>files. fst (exportMultipleFormats env) = Some files
      \<and> filter is_image files =
          concat (map (\<lambda>i. if renders env (ps ! i) JPEG
                             then (js ''images/page_'' @ js (decimal (i + 1)) @ js ''.jpg'',
                                   JpegImage (ps ! i))
                                  # (if renders env (ps ! i) PNG
                                     then [(js ''images/page_'' @ js (decimal (i + 1)) @ js ''.png'',
                                            PngImage (ps ! i))]
                                     else [])
                             else [])
                    [0..<min (length ps) 10])
      \<and> (\<forall>f \<in> set (filter is_image files). \<exists>i<min (length ps) 10.
            f = (js ''images/page_'' @ js (decimal (i + 1)) @ js ''.jpg'', JpegImage (ps ! i))
            \<or> f = (js ''images/page_'' @ js (decimal (i + 1)) @ js ''.png'', PngImage (ps ! i)))
      \<and> ((\<forall>i<min (length ps) 10. renders env (ps ! i) JPEG \<and> renders env (ps ! i) PNG) \<longrightarrow>
           filter is_image files =
             concat (map (\<lambda>i. [(js ''images/page_'' @ js (decimal (i + 1)) @ js ''.jpg'',
                                   JpegImage (ps ! i)),
                                  (js ''images/page_'' @ js (decimal (i + 1)) @ js ''.png'',
                                   PngImage (ps ! i))])
                       [0..<min (length ps) 10]))
      \<and> (js ''preview.html'',
          HtmlPreview (extractContentSections (engine_toLowerCase env) (Some ps))) \<in> set files
      \<and> snd (exportMultipleFormats env) = [POST (js ''/api/export/brochure'') d]"
proof -
  obtain files where files: "fst (exportMultipleFormats env) = Some files"
    unfolding exportMultipleFormats_files[OF assms] by simp
  have img: "filter is_image files = image_loop env ps"
    using assms files by (rule exported_images)
  have e: "filter is_image files =
          concat (map (\<lambda>i. if renders env (ps ! i) JPEG
                             then (js ''images/page_'' @ js (decimal (i + 1)) @ js ''.jpg'',
                                   JpegImage (ps ! i))
                                  # (if renders env (ps ! i) PNG
                                     then [(js ''images/page_'' @ js (decimal (i + 1)) @ js ''.png'',
                                            PngImage (ps ! i))]
                                     else [])
                             else [])
                    [0..<min (length ps) 10])"
    unfolding img by (rule image_loop_exact)
  have a: "\<forall>f \<in> set (filter is_image files). \<exists>i<min (length ps) 10.
            f = (js ''images/page_'' @ js (decimal (i + 1)) @ js ''.jpg'', JpegImage (ps ! i))
            \<or> f = (js ''images/page_'' @ js (decimal (i + 1)) @ js ''.png'', PngImage (ps ! i))"
    unfolding img using image_loop_entries by blast
  have b: "(\<forall>i<min (length ps) 10. renders env (ps ! i) JPEG \<and> renders env (ps ! i) PNG) \<longrightarrow>
           filter is_image files =
             concat (map (\<lambda>i. [(js ''images/page_'' @ js (decimal (i + 1)) @ js ''.jpg'',
                                   JpegImage (ps ! i)),
                                  (js ''images/page_'' @ js (decimal (i + 1)) @ js ''.png'',
                                   PngImage (ps ! i))])
                       [0..<min (length ps) 10])"
    unfolding img using image_loop_all_render by blast
  have c: "(js ''preview.html'',
          HtmlPreview (extractContentSections (engine_toLowerCase env) (Some ps))) \<in> set files"
    using files unfolding exportMultipleFormats_files[OF assms] by auto
  have d: "snd (exportMultipleFormats env) = [POST (js ''/api/export/brochure'') d]"
    unfolding exportMultipleFormats_files[OF assms] by simp
  from files e a b c d show ?thesis by blast
qed

theorem export_images_first_ten_pages_witness:
  "jszip_loads demo_export
   \<and> window_brochureData demo_export = Some \<lparr>bd_pages = Some (replicate 10 plain_page @ [last_page])\<rparr>
   \<and> (\<exists>files. fst (exportMultipleFormats demo_export) = Some files
        \<and> filter is_image files =
             concat (map (\<lambda>i. [(js ''images/page_'' @ js (decimal (i + 1)) @ js ''.jpg'',
                                   JpegImage ((replicate 10 plain_page @ [last_page]) ! i)),
                                  (js ''images/page_'' @ js (decimal (i + 1)) @ js ''.png'',
                                   PngImage ((replicate 10 plain_page @ [last_page]) ! i))])
                       [0..<10])
        \<and> (js ''images/page_10.png'', PngImage plain_page) \<in> set files
        \<and> \<not> (\<exists>p. (p, JpegImage last_page) \<in> set files)
        \<and> (js ''preview.html'',
            HtmlPreview (extractContentSections ascii_lower
              (Some (replicate 10 plain_page @ [last_page])))) \<in> set files)
   \<and> snd (exportMultipleFormats demo_export) =
       [POST (js ''/api/export/brochure'')
          \<lparr>bd_pages = Some (replicate 10 plain_page @ [last_page])\<rparr>]"
proof -
  let ?ps = "replicate 10 plain_page @ [last_page]"
  note f = demo_export_facts[of "\<lambda>pg f. True", unfolded demo_export_self]
  note t = export_images_first_ten_pages[OF f(1) f(2) demo_pages_facts(1),
      unfolded demo_pages_facts(2)]
  have r: "\<forall>i<10. renders demo_export (?ps ! i) JPEG \<and> renders demo_export (?ps ! i) PNG"
    by (simp add: demo_export_def)
  have lc: "engine_toLowerCase demo_export = ascii_lower"
    by (simp add: demo_export_def)
  from t r obtain files where
    files: "fst (exportMultipleFormats demo_export) = Some files"
    and ent: "\<forall>f \<in> set (filter is_image files). \<exists>i<10.
            f = (js ''images/page_'' @ js (decimal (i + 1)) @ js ''.jpg'', JpegImage (?ps ! i))
            \<or> f = (js ''images/page_'' @ js (decimal (i + 1)) @ js ''.png'', PngImage (?ps ! i))"
    and img: "filter is_image files =
             concat (map (\<lambda>i. [(js ''images/page_'' @ js (decimal (i + 1)) @ js ''.jpg'',
                                   JpegImage (?ps ! i)),
                                  (js ''images/page_'' @ js (decimal (i + 1)) @ js ''.png'',
                                   PngImage (?ps ! i))])
                       [0..<10])"
    and html: "(js ''preview.html'',
          HtmlPreview (extractContentSections (engine_toLowerCase demo_export) (Some ?ps)))
          \<in> set files"
    and req: "snd (exportMultipleFormats demo_export) =
       [POST (js ''/api/export/brochure'') \<lparr>bd_pages = Some ?ps\<rparr>]"
    by blast
  have no11: "\<not> (\<exists>p. (p, JpegImage last_page) \<in> set files)"
  proof
    assume "\<exists>p. (p, JpegImage last_page) \<in> set files"
    then obtain p where p: "(p, JpegImage last_page) \<in> set files" by blast
    then have "(p, JpegImage last_page) \<in> set (filter is_image files)"
      by (simp add: is_image_def)
    with ent obtain i where i: "i < 10"
      "(p, JpegImage last_page) = (js ''images/page_'' @ js (decimal (i + 1)) @ js ''.jpg'', JpegImage (?ps ! i))
       \<or> (p, JpegImage last_page) = (js ''images/page_'' @ js (decimal (i + 1)) @ js ''.png'', PngImage (?ps ! i))"
      by blast
    from i(1) have "?ps ! i = plain_page" by (simp add: nth_append)
    with i(2) have "last_page = plain_page" by simp
    with plain_neq_last show False by simp
  qed
  have "(js ''images/page_'' @ js (decimal (9 + 1)) @ js ''.png'', PngImage (?ps ! 9))
          \<in> set (filter is_image files)"
    unfolding img by (rule in_concat_map[where i=9]) simp_all
  then have p10: "(js ''images/page_10.png'', PngImage plain_page) \<in> set files"
    by (simp add: decimal_10 js_append nth_append)
  from files img p10 no11 html req f(1) f(2) show ?thesis
    unfolding lc by blast
qed

text \<open>
  C8 as stated fails: for an eleven-page brochure, when the rasteriser rejects every
  JPEG the archive holds no image file although every PNG would have been generated;
  when it rejects every PNG the archive holds the ten JPEG files only; and when JSZip
  cannot be loaded the export is abandoned without any file.
\<close>

theorem export_images_skipped_on_failure:
  "(\<exists>files. fst (exportMultipleFormats (demo_export\<lparr>renders := (\<lambda>pg f. f = PNG)\<rparr>)) = Some files
      \<and> filter is_image files = [])
   \<and> (\<exists>files. fst (exportMultipleFormats (demo_export\<lparr>renders := (\<lambda>pg f. f = JPEG)\<rparr>)) = Some files
      \<and> filter is_image files =
          concat (map (\<lambda>i. [(js ''images/page_'' @ js (decimal (i + 1)) @ js ''.jpg'',
                               JpegImage ((replicate 10 plain_page @ [last_page]) ! i))])
                    [0..<10]))
   \<and> fst (exportMultipleFormats (demo_export\<lparr>jszip_loads := False\<rparr>)) = None"
proof -
  let ?ps = "replicate 10 plain_page @ [last_page]"
  let ?envP = "demo_export\<lparr>renders := (\<lambda>pg f. f = PNG)\<rparr>"
  let ?envJ = "demo_export\<lparr>renders := (\<lambda>pg f. f = JPEG)\<rparr>"
  note fP = demo_export_facts[of "\<lambda>pg f. f = PNG"]
  note fJ = demo_export_facts[of "\<lambda>pg f. f = JPEG"]
  obtain filesP where filesP: "fst (exportMultipleFormats ?envP) = Some filesP"
    unfolding exportMultipleFormats_files[OF fP(1) fP(2) demo_pages_facts(1)] by simp
  have "filter is_image filesP = image_loop ?envP ?ps"
    using fP(1) fP(2) demo_pages_facts(1) filesP by (rule exported_images)
  also have "\<dots> = []"
    by (rule image_loop_none_render) simp
  finally have a: "filter is_image filesP = []" .
  obtain filesJ where filesJ: "fst (exportMultipleFormats ?envJ) = Some filesJ"
    unfolding exportMultipleFormats_files[OF fJ(1) fJ(2) demo_pages_facts(1)] by simp
  have "filter is_image filesJ = image_loop ?envJ ?ps"
    using fJ(1) fJ(2) demo_pages_facts(1) filesJ by (rule exported_images)
  also have "\<dots> = concat (map (\<lambda>i. [(js ''images/page_'' @ js (decimal (i + 1)) @ js ''.jpg'',
                               JpegImage (?ps ! i))])
                    [0..<min (length ?ps) 10])"
    by (rule image_loop_only_jpeg) simp
  finally have j: "filter is_image filesJ =
          concat (map (\<lambda>i. [(js ''images/page_'' @ js (decimal (i + 1)) @ js ''.jpg'',
                               JpegImage (?ps ! i))])
                    [0..<10])"
    unfolding demo_pages_facts(2) .
  have b: "fst (exportMultipleFormats (demo_export\<lparr>jszip_loads := False\<rparr>)) = None"
    by (simp add: exportMultipleFormats_def)
  from filesP a filesJ j b show ?thesis by blast
qed

end
